theory Spec2Isabelle
  imports Complex_Main "HOL-Library.Word"
begin

section \<open>Data model (src/types.ts and the message type consumed by src/App.tsx)\<close>

text \<open>
  The four values of the \<open>connectionStatus\<close> state cell of \<open>App\<close>.
\<close>

datatype connection_status = Idle | Connecting | Connected | Error

text \<open>\<open>TranscriptionEntry\<close> of src/types.ts; \<open>type\<close> is \<open>'user' | 'model'\<close>.\<close>

datatype speaker = User | Model

record TranscriptionEntry =
  entry_id :: string
  entry_type :: speaker
  entry_text :: string
  entry_timestamp :: int

text \<open>
  The part of \<open>LiveServerMessage\<close> that \<open>onmessage\<close> reads. Every optional
  property of the message is an \<open>option\<close>; the two flags are read for truthiness only.
\<close>

record Blob =
  data :: "string option"

record Part =
  inlineData :: "Blob option"

record Content =
  parts :: "Part list option"

record Transcription =
  transcription_text :: "string option"

record LiveServerContent =
  modelTurn :: "Content option"
  inputTranscription :: "Transcription option"
  outputTranscription :: "Transcription option"
  turnComplete :: bool
  interrupted :: bool

record LiveServerMessage =
  serverContent :: "LiveServerContent option"

text \<open>The decoded buffer handed to the playback code; only its duration is read.\<close>

record AudioBuffer =
  duration :: real

text \<open>
  Exceptions that leave a handler: a property read on \<open>undefined\<close>, and a failure
  of one of the two decoding helpers.
\<close>

datatype js_error = TypeError | DecodeError

datatype outcome = Fulfilled | Rejected js_error

section \<open>Application state\<close>

text \<open>
  One record holds the React state cells of \<open>App\<close>, its refs, and the platform
  objects the code creates and releases. Platform objects (audio contexts, media
  streams, live sessions, buffer source nodes) are handles taken from \<open>nextHandle\<close>;
  the sets and logs say which of them are still held and which calls were made on them:
  \<open>started\<close> lists the \<open>source.start(when)\<close> calls as (source, when, duration of its
  buffer), \<open>stopped\<close> holds the sources on which \<open>stop()\<close> was called, and \<open>sent\<close>
  lists the \<open>sendRealtimeInput\<close> calls as (session, blob data). State setters take
  effect in call order, and an updater function sees the value left by the setters
  before it.
\<close>

record app =
  isActive :: bool
  history :: "TranscriptionEntry list"
  currentInput :: string
  currentOutput :: string
  isMuted :: bool
  connectionStatus :: connection_status
  sessionRef :: "nat option"
  audioContextRef :: "(nat \<times> nat) option"
  nextStartTimeRef :: real
  sourcesRef :: "nat set"
  streamRef :: "nat option"
  openContexts :: "nat set"
  liveStreams :: "nat set"
  openSessions :: "nat set"
  captureGraphs :: "(nat \<times> nat) set"
  started :: "(nat \<times> real \<times> real) list"
  stopped :: "nat set"
  sent :: "(nat \<times> string) list"
  nextHandle :: nat

text \<open>The state of a freshly mounted \<open>App\<close> (the \<open>useState\<close>/\<open>useRef\<close> initial values).\<close>

definition initial :: app where
  "initial = \<lparr> isActive = False, history = [], currentInput = [], currentOutput = [],
     isMuted = False, connectionStatus = Idle, sessionRef = None, audioContextRef = None,
     nextStartTimeRef = 0, sourcesRef = {}, streamRef = None, openContexts = {},
     liveStreams = {}, openSessions = {}, captureGraphs = {}, started = [], stopped = {},
     sent = [], nextHandle = 0 \<rparr>"

text \<open>
  The callbacks passed to \<open>ai.live.connect\<close> are closures created inside one call of
  \<open>handleStartSession\<close>. They read \<open>isMuted\<close>, \<open>currentInput\<close> and
  \<open>currentOutput\<close> as the constants of the render in which that call was made, and
  \<open>inputCtx\<close>, \<open>stream\<close> and the session as the locals of that call. The refs
  and the state setters are shared with every later render.
\<close>

record closure =
  cl_isMuted :: bool
  cl_currentInput :: string
  cl_currentOutput :: string
  cl_inputCtx :: nat
  cl_stream :: nat
  cl_session :: nat

section \<open>Audio set-up and tear-down\<close>

text \<open>
  What the platform answers during one start attempt: whether each
  \<open>new AudioContext\<close> succeeds, whether \<open>getUserMedia\<close> resolves, and whether
  \<open>ai.live.connect\<close> resolves.
\<close>

record start_env =
  inputContextOk :: bool
  outputContextOk :: bool
  microphoneOk :: bool
  connectOk :: bool

text \<open>
  \<open>setupAudio\<close> (lines 25-32): the two contexts are created and stored in
  \<open>audioContextRef\<close> before the microphone is requested. A constructor that throws
  or a rejected \<open>getUserMedia\<close> leaves the function at that point (\<open>None\<close>), with
  everything done before it kept.
\<close>

definition setupAudio :: "start_env \<Rightarrow> app \<Rightarrow> (nat \<times> nat \<times> nat) option \<times> app" where
  "setupAudio env s =
     (if \<not> inputContextOk env then (None, s)
      else
        let inputCtx = nextHandle s;
            s1 = s\<lparr>nextHandle := Suc inputCtx, openContexts := insert inputCtx (openContexts s)\<rparr>
        in if \<not> outputContextOk env then (None, s1)
           else
             let outputCtx = nextHandle s1;
                 s2 = s1\<lparr>nextHandle := Suc outputCtx,
                         openContexts := insert outputCtx (openContexts s1),
                         audioContextRef := Some (inputCtx, outputCtx)\<rparr>
             in if \<not> microphoneOk env then (None, s2)
                else
                  let stream = nextHandle s2;
                      s3 = s2\<lparr>nextHandle := Suc stream,
                              liveStreams := insert stream (liveStreams s2),
                              streamRef := Some stream\<rparr>
                  in (Some (inputCtx, outputCtx, stream), s3))"

text \<open>\<open>stopAudio\<close> (lines 34-45).\<close>

definition stopAudio :: "app \<Rightarrow> app" where
  "stopAudio s =
     (let s1 = (case streamRef s of None \<Rightarrow> s
                | Some stream \<Rightarrow> s\<lparr>liveStreams := liveStreams s - {stream}\<rparr>);
          s2 = (case audioContextRef s1 of None \<Rightarrow> s1
                | Some (inputCtx, outputCtx) \<Rightarrow>
                    s1\<lparr>openContexts := openContexts s1 - {inputCtx, outputCtx}\<rparr>)
      in s2\<lparr>stopped := stopped s2 \<union> sourcesRef s2, sourcesRef := {}, nextStartTimeRef := 0\<rparr>)"

section \<open>Starting and stopping a session\<close>

text \<open>
  \<open>handleStartSession\<close> (lines 47-151), the click handler of the one start/stop
  button. With \<open>isActive\<close> set it is the stop path. Otherwise it sets the status to
  connecting, runs \<open>setupAudio\<close>, opens the live session and stores it in
  \<open>sessionRef\<close>; any exception on the way is caught and sets the status to error. The
  result also holds the closure of the callbacks of the session that was opened. The
  handler's own \<open>await\<close>s are taken to resume before any other event is handled; the
  session's \<open>onopen\<close> callback, which sets \<open>isActive\<close>, is an event of its own, so
  the state this function returns on success is the connecting one.
\<close>

definition handleStartSession :: "start_env \<Rightarrow> app \<Rightarrow> closure option \<times> app" where
  "handleStartSession env s =
     (if isActive s then
        let s1 = s\<lparr>isActive := False, connectionStatus := Idle\<rparr>;
            s2 = (case sessionRef s1 of None \<Rightarrow> s1
                  | Some session \<Rightarrow> s1\<lparr>openSessions := openSessions s1 - {session}\<rparr>)
        in (None, stopAudio s2)
      else
        let s1 = s\<lparr>connectionStatus := Connecting\<rparr> in
        case setupAudio env s1 of
          (None, s2) \<Rightarrow> (None, s2\<lparr>connectionStatus := Error\<rparr>)
        | (Some (inputCtx, outputCtx, stream), s2) \<Rightarrow>
            let session = nextHandle s2;
                cl = \<lparr> cl_isMuted = isMuted s, cl_currentInput = currentInput s,
                       cl_currentOutput = currentOutput s, cl_inputCtx = inputCtx,
                       cl_stream = stream, cl_session = session \<rparr>
            in if \<not> connectOk env then (None, s2\<lparr>connectionStatus := Error\<rparr>)
               else (Some cl, s2\<lparr>nextHandle := Suc session,
                                  openSessions := insert session (openSessions s2),
                                  sessionRef := Some session\<rparr>))"

section \<open>The session callbacks\<close>

text \<open>
  \<open>onopen\<close> (lines 73-91): the status becomes connected and the capture graph
  (media stream source, script processor) is attached to the input context.
\<close>

definition onopen :: "closure \<Rightarrow> app \<Rightarrow> app" where
  "onopen cl s =
     s\<lparr>connectionStatus := Connected, isActive := True,
       captureGraphs := insert (cl_inputCtx cl, cl_stream cl) (captureGraphs s)\<rparr>"

text \<open>
  \<open>scriptProcessor.onaudioprocess\<close> (lines 80-87). \<open>isMuted\<close> is the closure's
  constant. \<open>createPcmBlob\<close> is a helper of the repository that is not among the
  sources; it is the parameter \<open>createPcmBlob\<close>.
\<close>

definition onaudioprocess :: "(real list \<Rightarrow> string) \<Rightarrow> closure \<Rightarrow> real list \<Rightarrow> app \<Rightarrow> app" where
  "onaudioprocess createPcmBlob cl inputData s =
     (if cl_isMuted cl then s
      else s\<lparr>sent := sent s @ [(cl_session cl, createPcmBlob inputData)]\<rparr>)"

text \<open>The mute button (line 201): \<open>setIsMuted(!isMuted)\<close>.\<close>

definition toggleMute :: "app \<Rightarrow> app" where
  "toggleMute s = s\<lparr>isMuted := \<not> isMuted s\<rparr>"

text \<open>
  Frame deliveries of one session's script processor interleaved with clicks on the mute
  button, in the order in which they happen.
\<close>

datatype capture_event = FrameDelivered "real list" | MuteClicked

fun captureRun :: "(real list \<Rightarrow> string) \<Rightarrow> closure \<Rightarrow> capture_event list \<Rightarrow> app \<Rightarrow> app" where
  "captureRun createPcmBlob cl [] s = s"
| "captureRun createPcmBlob cl (FrameDelivered inputData # rest) s =
     captureRun createPcmBlob cl rest (onaudioprocess createPcmBlob cl inputData s)"
| "captureRun createPcmBlob cl (MuteClicked # rest) s =
     captureRun createPcmBlob cl rest (toggleMute s)"

text \<open>\<open>onerror\<close> (lines 134-138) and \<open>onclose\<close> (lines 139-142).\<close>

definition onerror :: "app \<Rightarrow> app" where
  "onerror s = s\<lparr>connectionStatus := Error, isActive := False\<rparr>"

definition onclose :: "app \<Rightarrow> app" where
  "onclose s = s\<lparr>connectionStatus := Idle, isActive := False\<rparr>"

text \<open>The \<open>ended\<close> listener of a buffer source (line 103).\<close>

definition onended :: "nat \<Rightarrow> app \<Rightarrow> app" where
  "onended source s = s\<lparr>sourcesRef := sourcesRef s - {source}\<rparr>"

subsection \<open>Inbound messages\<close>

text \<open>
  What one call of \<open>onmessage\<close> reads from outside the message: the output context's
  clock, the two decoding helpers (\<open>decode\<close> and \<open>decodeAudioData\<close> of
  \<open>./utils/audioHelpers\<close>, which is not among the sources; \<open>None\<close> is a thrown
  exception), the two \<open>Math.random().toString()\<close> results and the two \<open>Date.now()\<close>
  readings.
\<close>

record msg_env =
  currentTime :: real
  decode :: "string \<Rightarrow> 8 word list option"
  decodeAudioData :: "8 word list \<Rightarrow> nat \<Rightarrow> nat \<Rightarrow> nat \<Rightarrow> AudioBuffer option"
  random1 :: string
  random2 :: string
  now1 :: int
  now2 :: int

text \<open>
  Line 94: \<open>message.serverContent?.modelTurn?.parts[0]?.inlineData?.data\<close>. Each
  \<open>?.\<close> yields \<open>undefined\<close> on a missing object; \<open>parts[0]\<close> has no \<open>?.\<close>
  before the index, so a model turn without \<open>parts\<close> throws.
\<close>

definition audioData_of :: "LiveServerMessage \<Rightarrow> js_error + string option" where
  "audioData_of message =
     (case serverContent message of None \<Rightarrow> Inr None
      | Some sc \<Rightarrow>
          (case modelTurn sc of None \<Rightarrow> Inr None
           | Some mt \<Rightarrow>
               (case parts mt of None \<Rightarrow> Inl TypeError
                | Some [] \<Rightarrow> Inr None
                | Some (p # _) \<Rightarrow>
                    (case inlineData p of None \<Rightarrow> Inr None
                     | Some b \<Rightarrow> Inr (data b)))))"

text \<open>\<open>if (audioData)\<close>: a string is truthy when it is not empty.\<close>

definition truthy :: "string \<Rightarrow> bool" where
  "truthy str = (str \<noteq> [])"

text \<open>
  Line 99: \<open>decodeAudioData(decode(audioData), outCtx, 24000, 1)\<close>; \<open>None\<close> when
  either helper throws.
\<close>

definition decodeFragment :: "msg_env \<Rightarrow> nat \<Rightarrow> string \<Rightarrow> AudioBuffer option" where
  "decodeFragment env outCtx audioData =
     (case decode env audioData of None \<Rightarrow> None
      | Some bytes \<Rightarrow> decodeAudioData env bytes outCtx 24000 1)"

text \<open>
  Lines 96-107, the playback scheduling of one audio fragment. The timeline cell is
  raised to the device clock before the fragment is decoded, so a decoding failure
  leaves with that assignment done and nothing else. The \<open>await\<close> on the decoding
  helper is taken to resume before any other event is handled.
\<close>

definition scheduleAudio :: "msg_env \<Rightarrow> string \<Rightarrow> app \<Rightarrow> outcome \<times> app" where
  "scheduleAudio env audioData s =
     (case audioContextRef s of None \<Rightarrow> (Fulfilled, s)
      | Some (inputCtx, outCtx) \<Rightarrow>
          let s1 = s\<lparr>nextStartTimeRef := max (nextStartTimeRef s) (currentTime env)\<rparr> in
          (case decodeFragment env outCtx audioData of
             None \<Rightarrow> (Rejected DecodeError, s1)
           | Some buffer \<Rightarrow>
               let source = nextHandle s1 in
               (Fulfilled,
                s1\<lparr>nextHandle := Suc source,
                   started := started s1 @ [(source, nextStartTimeRef s1, duration buffer)],
                   nextStartTimeRef := nextStartTimeRef s1 + duration buffer,
                   sourcesRef := insert source (sourcesRef s1)\<rparr>)))"

text \<open>
  String concatenation with a property that may be missing: \<open>prev + undefined\<close> is
  \<open>prev\<close> followed by the text \<open>undefined\<close>.
\<close>

definition js_concat :: "string \<Rightarrow> string option \<Rightarrow> string" where
  "js_concat prev t = prev @ (case t of None \<Rightarrow> ''undefined'' | Some str \<Rightarrow> str)"

text \<open>Lines 111-116: the two partial-transcript accumulators.\<close>

definition handleTranscriptions :: "LiveServerMessage \<Rightarrow> app \<Rightarrow> app" where
  "handleTranscriptions message s =
     (case serverContent message of None \<Rightarrow> s
      | Some sc \<Rightarrow>
          let s1 = (case inputTranscription sc of None \<Rightarrow> s
                    | Some t \<Rightarrow> s\<lparr>currentInput := js_concat (currentInput s) (transcription_text t)\<rparr>)
          in (case outputTranscription sc of None \<Rightarrow> s1
              | Some t \<Rightarrow>
                  s1\<lparr>currentOutput := js_concat (currentOutput s1) (transcription_text t)\<rparr>))"

text \<open>
  Lines 118-126. The two entries take their text from \<open>currentInput\<close> and
  \<open>currentOutput\<close> as the handler's closure holds them.
\<close>

definition handleTurnComplete :: "closure \<Rightarrow> msg_env \<Rightarrow> LiveServerMessage \<Rightarrow> app \<Rightarrow> app" where
  "handleTurnComplete cl env message s =
     (case serverContent message of None \<Rightarrow> s
      | Some sc \<Rightarrow>
          if turnComplete sc then
            s\<lparr>history := history s @
                 [\<lparr> entry_id = random1 env, entry_type = User,
                    entry_text = cl_currentInput cl, entry_timestamp = now1 env \<rparr>,
                  \<lparr> entry_id = random2 env, entry_type = Model,
                    entry_text = cl_currentOutput cl, entry_timestamp = now2 env \<rparr>],
              currentInput := [], currentOutput := []\<rparr>
          else s)"

text \<open>Lines 128-132.\<close>

definition handleInterrupted :: "LiveServerMessage \<Rightarrow> app \<Rightarrow> app" where
  "handleInterrupted message s =
     (case serverContent message of None \<Rightarrow> s
      | Some sc \<Rightarrow>
          if interrupted sc then
            s\<lparr>stopped := stopped s \<union> sourcesRef s, sourcesRef := {}, nextStartTimeRef := 0\<rparr>
          else s)"

text \<open>
  \<open>onmessage\<close> (lines 92-133). An exception in the audio part ends the call: the
  transcript, turn-complete and interruption parts of the same message are not reached.
\<close>

definition onmessage :: "closure \<Rightarrow> msg_env \<Rightarrow> LiveServerMessage \<Rightarrow> app \<Rightarrow> outcome \<times> app" where
  "onmessage cl env message s =
     (case audioData_of message of Inl e \<Rightarrow> (Rejected e, s)
      | Inr audioData \<Rightarrow>
          (case (case audioData of None \<Rightarrow> (Fulfilled, s)
                 | Some a \<Rightarrow> if truthy a then scheduleAudio env a s else (Fulfilled, s)) of
             (Rejected e, s1) \<Rightarrow> (Rejected e, s1)
           | (Fulfilled, s1) \<Rightarrow>
               (Fulfilled,
                handleInterrupted message
                  (handleTurnComplete cl env message (handleTranscriptions message s1)))))"

text \<open>
  Inbound messages are handled in arrival order, one call of \<open>onmessage\<close> each. The
  caller of the callback is not among the sources; a call that ends in a rejected
  promise is taken not to keep the next message from being handled.
\<close>

fun run :: "closure \<Rightarrow> (msg_env \<times> LiveServerMessage) list \<Rightarrow> app \<Rightarrow> app" where
  "run cl [] s = s"
| "run cl ((env, message) # rest) s = run cl rest (snd (onmessage cl env message s))"

fun outcomes :: "closure \<Rightarrow> (msg_env \<times> LiveServerMessage) list \<Rightarrow> app \<Rightarrow> outcome list" where
  "outcomes cl [] s = []"
| "outcomes cl ((env, message) # rest) s =
     fst (onmessage cl env message s) # outcomes cl rest (snd (onmessage cl env message s))"

section \<open>Example inputs\<close>

text \<open>Messages carrying one thing each, and a message with no server content.\<close>

definition emptyContent :: LiveServerContent where
  "emptyContent = \<lparr> modelTurn = None, inputTranscription = None, outputTranscription = None,
     turnComplete = False, interrupted = False \<rparr>"

definition audioMessage :: "string \<Rightarrow> LiveServerMessage" where
  "audioMessage a =
     \<lparr> serverContent = Some (emptyContent\<lparr>modelTurn :=
         Some \<lparr> parts = Some [\<lparr> inlineData = Some \<lparr> data = Some a \<rparr> \<rparr>] \<rparr>\<rparr>) \<rparr>"

definition inputMessage :: "string \<Rightarrow> LiveServerMessage" where
  "inputMessage t =
     \<lparr> serverContent = Some (emptyContent\<lparr>inputTranscription :=
         Some \<lparr> transcription_text = Some t \<rparr>\<rparr>) \<rparr>"

definition outputMessage :: "string \<Rightarrow> LiveServerMessage" where
  "outputMessage t =
     \<lparr> serverContent = Some (emptyContent\<lparr>outputTranscription :=
         Some \<lparr> transcription_text = Some t \<rparr>\<rparr>) \<rparr>"

definition turnCompleteMessage :: LiveServerMessage where
  "turnCompleteMessage = \<lparr> serverContent = Some (emptyContent\<lparr>turnComplete := True\<rparr>) \<rparr>"

definition interruptedMessage :: LiveServerMessage where
  "interruptedMessage = \<lparr> serverContent = Some (emptyContent\<lparr>interrupted := True\<rparr>) \<rparr>"

text \<open>
  A platform on which every acquisition succeeds, the session it gives from the initial
  state, and the state once that session is open.
\<close>

definition allOk :: start_env where
  "allOk = \<lparr> inputContextOk = True, outputContextOk = True, microphoneOk = True,
     connectOk = True \<rparr>"

definition firstClosure :: closure where
  "firstClosure = \<lparr> cl_isMuted = False, cl_currentInput = [], cl_currentOutput = [],
     cl_inputCtx = 0, cl_stream = 2, cl_session = 3 \<rparr>"

definition connectedState :: app where
  "connectedState = onopen firstClosure (snd (handleStartSession allOk initial))"

text \<open>
  A reading of the environment at device time \<open>t\<close> in which every fragment decodes to
  a buffer of duration \<open>d\<close>, and one in which no fragment decodes.
\<close>

definition envAt :: "real \<Rightarrow> real \<Rightarrow> msg_env" where
  "envAt t d = \<lparr> currentTime = t, decode = (\<lambda>a. Some []),
     decodeAudioData = (\<lambda>bytes ctx rate channels. Some \<lparr> duration = d \<rparr>),
     random1 = ''0.1'', random2 = ''0.2'', now1 = 1000, now2 = 1000 \<rparr>"

definition envFailing :: "real \<Rightarrow> msg_env" where
  "envFailing t = \<lparr> currentTime = t, decode = (\<lambda>a. None),
     decodeAudioData = (\<lambda>bytes ctx rate channels. None),
     random1 = ''0.1'', random2 = ''0.2'', now1 = 1000, now2 = 1000 \<rparr>"

text \<open>The connected state with one fragment of duration 2 scheduled at device time 0.\<close>

definition playingState :: app where
  "playingState = run firstClosure [(envAt 0 2, audioMessage ''AAAA'')] connectedState"

text \<open>
  A message that carries an audio fragment together with the turn-complete and the
  interruption flags.
\<close>

definition mixedMessage :: "string \<Rightarrow> LiveServerMessage" where
  "mixedMessage a =
     \<lparr> serverContent = Some (emptyContent\<lparr>modelTurn :=
         Some \<lparr> parts = Some [\<lparr> inlineData = Some \<lparr> data = Some a \<rparr> \<rparr>] \<rparr>,
         turnComplete := True, interrupted := True\<rparr>) \<rparr>"

text \<open>
  A first session stopped in the middle of a turn, after the partial user transcript
  "hi" and before any turn-complete event; the closure of the session started next, and
  the state once that second session is open.
\<close>

definition stoppedMidTurn :: app where
  "stoppedMidTurn =
     snd (handleStartSession allOk
       (run firstClosure [(envAt 0 0, inputMessage ''hi'')] connectedState))"

definition secondClosure :: closure where
  "secondClosure = \<lparr> cl_isMuted = False, cl_currentInput = ''hi'', cl_currentOutput = [],
     cl_inputCtx = 4, cl_stream = 6, cl_session = 7 \<rparr>"

definition secondSessionState :: app where
  "secondSessionState = onopen secondClosure (snd (handleStartSession allOk stoppedMidTurn))"

section \<open>States that differ in the timeline cell only\<close>

text \<open>
  \<open>sameButTimeline c s s'\<close>: \<open>s'\<close> is \<open>s\<close> with a timeline cell that is not below
  that of \<open>s\<close> and not above the maximum of it and the device time \<open>c\<close>. Every other
  cell, ref and platform object is the same in both.
\<close>

definition sameButTimeline :: "real \<Rightarrow> app \<Rightarrow> app \<Rightarrow> bool" where
  "sameButTimeline c s s' =
     (s' = s\<lparr>nextStartTimeRef := nextStartTimeRef s'\<rparr>
      \<and> nextStartTimeRef s \<le> nextStartTimeRef s'
      \<and> nextStartTimeRef s' \<le> max (nextStartTimeRef s) c)"

section \<open>The sample codec\<close>

text \<open>
  The codec functions (\<open>createPcmBlob\<close>, \<open>decode\<close>, \<open>decodeAudioData\<close>) are
  imported by src/App.tsx from \<open>./utils/audioHelpers\<close>, which is not among the
  sources. The definitions of this section follow the specification's section 4.1.
  Samples are real numbers; on 32-bit float samples in the range from -1 to 1 every
  operation below is exact in double precision, so the two agree there.
\<close>

text \<open>
  Modelled from the spec: the sample conversion of \<open>encode\<close>, which is missing from the
  sources. Each sample is mapped "to a 16-bit signed integer by scaling by 32767 and
  rounding"; rounding is to the nearest integer (a half goes up), and the integer
  conversion wraps.
\<close>

definition toInt16 :: "real \<Rightarrow> 16 word" where
  "toInt16 x = word_of_int (round (x * 32767))"

text \<open>
  Modelled from the spec: the byte layout of one sample in \<open>encode\<close>, which is missing
  from the sources: "emits little-endian byte pairs", the low byte first.
\<close>

definition bytesLE :: "16 word \<Rightarrow> 8 word list" where
  "bytesLE w = [ucast w, ucast (drop_bit 8 w)]"

text \<open>
  Modelled from the spec: the PCM bytes of a sample sequence in \<open>encode\<close>, which is
  missing from the sources: the byte pairs of the samples, in order.
\<close>

definition pcmBytes :: "real list \<Rightarrow> 8 word list" where
  "pcmBytes samples = concat (map (\<lambda>x. bytesLE (toInt16 x)) samples)"

text \<open>
  Modelled from the spec: the alphabet of the "transport-safe binary-to-text framing" of
  \<open>encode\<close>, which is missing from the sources. Section 2 of the specification names
  the framing: base64.
\<close>

definition b64chars :: string where
  "b64chars = ''ABCDEFGHIJKLMNOPQRSTUVWXYZabcdefghijklmnopqrstuvwxyz0123456789+/''"

text \<open>
  Modelled from the spec: the character of a 6-bit value in the base64 framing, which is
  missing from the sources.
\<close>

definition b64char :: "nat \<Rightarrow> char" where
  "b64char n = b64chars ! n"

text \<open>
  Modelled from the spec: the 6-bit value of a character in the base64 framing, which is
  missing from the sources; \<open>None\<close> for a character outside the alphabet.
\<close>

fun indexOf :: "char \<Rightarrow> string \<Rightarrow> nat option" where
  "indexOf c [] = None"
| "indexOf c (x # xs) = (if x = c then Some 0 else map_option Suc (indexOf c xs))"

text \<open>
  Modelled from the spec: the binary-to-text framing of \<open>encode\<close>, which is missing
  from the sources. Three bytes become four characters; a last group of one or two
  bytes is padded with \<open>=\<close>.
\<close>

fun b64encode :: "8 word list \<Rightarrow> string" where
  "b64encode [] = []"
| "b64encode [a] =
     [b64char (unat a div 4), b64char (unat a mod 4 * 16), CHR ''='', CHR ''='']"
| "b64encode [a, b] =
     [b64char (unat a div 4), b64char (unat a mod 4 * 16 + unat b div 16),
      b64char (unat b mod 16 * 4), CHR ''='']"
| "b64encode (a # b # c # rest) =
     [b64char (unat a div 4), b64char (unat a mod 4 * 16 + unat b div 16),
      b64char (unat b mod 16 * 4 + unat c div 64), b64char (unat c mod 64)] @ b64encode rest"

text \<open>
  Modelled from the spec: the text-to-binary step of \<open>decode\<close>, which is missing from
  the sources; \<open>None\<close> for a text that is not a base64 framing.
\<close>

fun b64decode :: "string \<Rightarrow> 8 word list option" where
  "b64decode [] = Some []"
| "b64decode (p # q # r # t # rest) =
     (case (indexOf p b64chars, indexOf q b64chars) of
        (Some i, Some j) \<Rightarrow>
          if r = CHR ''='' \<and> t = CHR ''='' \<and> rest = [] then Some [of_nat (i * 4 + j div 16)]
          else
            (case indexOf r b64chars of None \<Rightarrow> None
             | Some k \<Rightarrow>
                 if t = CHR ''='' \<and> rest = []
                 then Some [of_nat (i * 4 + j div 16), of_nat (j mod 16 * 16 + k div 4)]
                 else
                   (case (indexOf t b64chars, b64decode rest) of
                      (Some l, Some bytes) \<Rightarrow>
                        Some (of_nat (i * 4 + j div 16) # of_nat (j mod 16 * 16 + k div 4)
                              # of_nat (k mod 4 * 64 + l) # bytes)
                    | _ \<Rightarrow> None))
      | _ \<Rightarrow> None)"
| "b64decode _ = None"

text \<open>
  Modelled from the spec: \<open>encode\<close> of the SampleCodec, which is missing from the
  sources (the data of the blob that \<open>createPcmBlob\<close> makes).
\<close>

definition SampleCodec_encode :: "real list \<Rightarrow> string" where
  "SampleCodec_encode samples = b64encode (pcmBytes samples)"

text \<open>
  Modelled from the spec: \<open>decode\<close> of the SampleCodec, which is missing from the
  sources: "inverse of the transport framing step only".
\<close>

definition SampleCodec_decode :: "string \<Rightarrow> 8 word list option" where
  "SampleCodec_decode chunk = b64decode chunk"

text \<open>
  Modelled from the spec: the reading of the bytes in \<open>toAudioBuffer\<close>, which is
  missing from the sources: it "interprets the byte sequence as 16-bit little-endian
  signed PCM". A last byte without a partner is not a sample.
\<close>

fun int16sLE :: "8 word list \<Rightarrow> 16 word list" where
  "int16sLE (lo # hi # rest) = word_cat hi lo # int16sLE rest"
| "int16sLE _ = []"

text \<open>
  Modelled from the spec: the sample conversion of \<open>toAudioBuffer\<close>, which is missing
  from the sources: it "converts each sample back to a float in [-1,1] by dividing by
  32768".
\<close>

definition toSample :: "16 word \<Rightarrow> real" where
  "toSample w = real_of_int (sint w) / 32768"

text \<open>
  Modelled from the spec: the de-interleaving of \<open>toAudioBuffer\<close>, which is missing
  from the sources: "the interleave stride equals channelCount". Channel \<open>c\<close> holds the
  samples at the positions that leave \<open>c\<close> when divided by the stride.
\<close>

definition deinterleave :: "nat \<Rightarrow> nat \<Rightarrow> 'a list \<Rightarrow> 'a list" where
  "deinterleave stride c xs = map (\<lambda>i. xs ! i) (filter (\<lambda>i. i mod stride = c) [0..<length xs])"

text \<open>
  Modelled from the spec: the DecodedAudioBuffer that \<open>toAudioBuffer\<close> makes, whose
  type is missing from the sources: the sample rate and the samples of each channel.
\<close>

record DecodedAudioBuffer =
  sampleRate :: nat
  channelData :: "real list list"

text \<open>
  Modelled from the spec: \<open>toAudioBuffer\<close> of the SampleCodec, which is missing from
  the sources.
\<close>

definition toAudioBuffer :: "8 word list \<Rightarrow> nat \<Rightarrow> nat \<Rightarrow> DecodedAudioBuffer" where
  "toAudioBuffer bytes rate channelCount =
     \<lparr> sampleRate = rate,
       channelData = map (\<lambda>c. deinterleave channelCount c (map toSample (int16sLE bytes)))
                       [0..<channelCount] \<rparr>"

text \<open>
  Modelled from the spec: \<open>decodeToSamples\<close> of the round-trip property, which is
  missing from the sources: the samples of the one channel of
  \<open>toAudioBuffer(decode(chunk), 24000, 1)\<close>.
\<close>

definition decodeToSamples :: "string \<Rightarrow> real list option" where
  "decodeToSamples chunk =
     (case SampleCodec_decode chunk of None \<Rightarrow> None
      | Some bytes \<Rightarrow>
          (case channelData (toAudioBuffer bytes 24000 1) of [] \<Rightarrow> None
           | samples # _ \<Rightarrow> Some samples))"

section \<open>Basic facts about the handlers\<close>

lemma start_from_initial:
  "handleStartSession allOk initial =
     (Some firstClosure,
      initial\<lparr>connectionStatus := Connecting, sessionRef := Some 3,
        audioContextRef := Some (0, 1), streamRef := Some 2, openContexts := {0, 1},
        liveStreams := {2}, openSessions := {3}, nextHandle := 4\<rparr>)"
  by (simp add: handleStartSession_def allOk_def initial_def setupAudio_def Let_def
      firstClosure_def insert_commute)

lemma connectedState_eq:
  "connectedState =
     initial\<lparr>isActive := True, connectionStatus := Connected, sessionRef := Some 3,
       audioContextRef := Some (0, 1), streamRef := Some 2, openContexts := {0, 1},
       liveStreams := {2}, openSessions := {3}, captureGraphs := {(0, 2)}, nextHandle := 4\<rparr>"
  unfolding connectedState_def start_from_initial
  by (simp add: onopen_def firstClosure_def initial_def)

lemma decodeFragment_envAt: "decodeFragment (envAt t d) outCtx a = Some \<lparr> duration = d \<rparr>"
  by (simp add: decodeFragment_def envAt_def)

lemma decodeFragment_envFailing: "decodeFragment (envFailing t) outCtx a = None"
  by (simp add: decodeFragment_def envFailing_def)

lemma currentTime_envAt: "currentTime (envAt t d) = t"
  by (simp add: envAt_def)

lemma scheduleAudio_decoded:
  assumes "audioContextRef s = Some (ic, oc)" and "decodeFragment env oc a = Some buf"
  shows "scheduleAudio env a s =
     (Fulfilled,
      s\<lparr>nextStartTimeRef := max (nextStartTimeRef s) (currentTime env) + duration buf,
        nextHandle := Suc (nextHandle s),
        started := started s @
          [(nextHandle s, max (nextStartTimeRef s) (currentTime env), duration buf)],
        sourcesRef := insert (nextHandle s) (sourcesRef s)\<rparr>)"
  using assms by (simp add: scheduleAudio_def Let_def)

lemma scheduleAudio_failed:
  assumes "audioContextRef s = Some (ic, oc)" and "decodeFragment env oc a = None"
  shows "scheduleAudio env a s =
     (Rejected DecodeError,
      s\<lparr>nextStartTimeRef := max (nextStartTimeRef s) (currentTime env)\<rparr>)"
  using assms by (simp add: scheduleAudio_def Let_def)

lemma scheduleAudio_playback:
  "sourcesRef s \<subseteq> sourcesRef (snd (scheduleAudio env a s))"
  "stopped (snd (scheduleAudio env a s)) = stopped s"
  by (auto simp: scheduleAudio_def Let_def split: option.splits prod.splits)

lemma transcript_parts_keep_playback:
  "sourcesRef (handleTurnComplete cl env m (handleTranscriptions m s)) = sourcesRef s"
  "stopped (handleTurnComplete cl env m (handleTranscriptions m s)) = stopped s"
  by (auto simp: handleTurnComplete_def handleTranscriptions_def Let_def split: option.splits)

lemma audioData_of_audioMessage: "audioData_of (audioMessage a) = Inr (Some a)"
  by (simp add: audioData_of_def audioMessage_def emptyContent_def)

lemma onmessage_fulfilled:
  assumes "onmessage cl env m s = (Fulfilled, s')"
  shows "\<exists>s1. s' = handleInterrupted m (handleTurnComplete cl env m (handleTranscriptions m s1))
           \<and> (s1 = s \<or> (\<exists>a. s1 = snd (scheduleAudio env a s)))"
proof (cases "audioData_of m")
  case (Inl e)
  with assms show ?thesis by (simp add: onmessage_def)
next
  case (Inr ad)
  show ?thesis
  proof (cases ad)
    case None
    with assms Inr show ?thesis by (auto simp: onmessage_def)
  next
    case (Some a)
    show ?thesis
    proof (cases "truthy a")
      case False
      with assms Inr Some show ?thesis by (auto simp: onmessage_def)
    next
      case True
      obtain o1 t1 where p: "scheduleAudio env a s = (o1, t1)"
        by (cases "scheduleAudio env a s")
      with assms Inr Some True have "o1 = Fulfilled"
        and "s' = handleInterrupted m (handleTurnComplete cl env m (handleTranscriptions m t1))"
        by (cases o1; simp add: onmessage_def)+
      moreover from p have "t1 = snd (scheduleAudio env a s)" by simp
      ultimately show ?thesis by blast
    qed
  qed
qed

lemma onmessage_audioMessage:
  assumes "a \<noteq> []"
  shows "onmessage cl env (audioMessage a) s = scheduleAudio env a s"
proof -
  have rest: "handleInterrupted (audioMessage a)
      (handleTurnComplete cl env (audioMessage a) (handleTranscriptions (audioMessage a) s')) = s'"
    for s'
    by (simp add: handleInterrupted_def handleTurnComplete_def handleTranscriptions_def
        audioMessage_def emptyContent_def)
  show ?thesis
    using assms
    by (cases "scheduleAudio env a s")
       (simp add: onmessage_def audioData_of_audioMessage truthy_def rest split: outcome.splits)
qed

lemma onmessage_audio_decoded:
  assumes "a \<noteq> []" and "audioContextRef s = Some (ic, oc)"
    and "decodeFragment env oc a = Some buf"
  shows "onmessage cl env (audioMessage a) s =
     (Fulfilled,
      s\<lparr>nextStartTimeRef := max (nextStartTimeRef s) (currentTime env) + duration buf,
        nextHandle := Suc (nextHandle s),
        started := started s @
          [(nextHandle s, max (nextStartTimeRef s) (currentTime env), duration buf)],
        sourcesRef := insert (nextHandle s) (sourcesRef s)\<rparr>)"
  using assms by (simp add: onmessage_audioMessage scheduleAudio_decoded)

lemma onmessage_interruptedMessage:
  "onmessage cl env interruptedMessage s =
     (Fulfilled,
      s\<lparr>stopped := stopped s \<union> sourcesRef s, sourcesRef := {}, nextStartTimeRef := 0\<rparr>)"
  by (simp add: onmessage_def audioData_of_def truthy_def interruptedMessage_def emptyContent_def
      handleInterrupted_def handleTurnComplete_def handleTranscriptions_def)

lemma onmessage_turnCompleteMessage:
  "onmessage cl env turnCompleteMessage s =
     (Fulfilled,
      s\<lparr>history := history s @
           [\<lparr> entry_id = random1 env, entry_type = User,
              entry_text = cl_currentInput cl, entry_timestamp = now1 env \<rparr>,
            \<lparr> entry_id = random2 env, entry_type = Model,
              entry_text = cl_currentOutput cl, entry_timestamp = now2 env \<rparr>],
        currentInput := [], currentOutput := []\<rparr>)"
  by (simp add: onmessage_def audioData_of_def truthy_def turnCompleteMessage_def emptyContent_def
      handleInterrupted_def handleTurnComplete_def handleTranscriptions_def)

lemma onmessage_inputMessage:
  "onmessage cl env (inputMessage t) s = (Fulfilled, s\<lparr>currentInput := currentInput s @ t\<rparr>)"
  by (simp add: onmessage_def audioData_of_def truthy_def inputMessage_def emptyContent_def
      handleInterrupted_def handleTurnComplete_def handleTranscriptions_def js_concat_def)

lemma onmessage_outputMessage:
  "onmessage cl env (outputMessage t) s = (Fulfilled, s\<lparr>currentOutput := currentOutput s @ t\<rparr>)"
  by (simp add: onmessage_def audioData_of_def truthy_def outputMessage_def emptyContent_def
      handleInterrupted_def handleTurnComplete_def handleTranscriptions_def js_concat_def)

lemma scheduleAudio_history: "history (snd (scheduleAudio env a s)) = history s"
  by (auto simp: scheduleAudio_def Let_def split: option.splits prod.splits)

lemma playingState_eq:
  "playingState =
     connectedState\<lparr>nextStartTimeRef := 2, sourcesRef := {4}, started := [(4, 0, 2)],
       nextHandle := 5\<rparr>"
  by (simp add: playingState_def onmessage_audio_decoded [where ic = 0 and oc = 1]
      decodeFragment_envAt currentTime_envAt connectedState_eq initial_def)

section \<open>Handling messages from states that differ in the timeline cell only\<close>

lemma scheduleAudio_sim:
  assumes "sameButTimeline c s s'" and "c \<le> currentTime env"
  shows "fst (scheduleAudio env a s') = fst (scheduleAudio env a s)
       \<and> sameButTimeline c (snd (scheduleAudio env a s)) (snd (scheduleAudio env a s'))"
proof -
  from assms(1) obtain x where s': "s' = s\<lparr>nextStartTimeRef := x\<rparr>"
    and le: "nextStartTimeRef s \<le> x" "x \<le> max (nextStartTimeRef s) c"
    by (auto simp: sameButTimeline_def)
  have mx: "max x (currentTime env) = max (nextStartTimeRef s) (currentTime env)"
    using le assms(2) by (simp add: max_def split: if_splits)
  show ?thesis
    unfolding s'
    by (auto simp: scheduleAudio_def Let_def mx sameButTimeline_def le split: option.splits)
qed

lemma later_parts_sim:
  assumes "sameButTimeline c s s'"
  shows "sameButTimeline c
      (handleInterrupted m (handleTurnComplete cl env m (handleTranscriptions m s)))
      (handleInterrupted m (handleTurnComplete cl env m (handleTranscriptions m s')))"
proof -
  from assms obtain x where s': "s' = s\<lparr>nextStartTimeRef := x\<rparr>"
    and le: "nextStartTimeRef s \<le> x" "x \<le> max (nextStartTimeRef s) c"
    by (auto simp: sameButTimeline_def)
  show ?thesis
    unfolding s'
    by (auto simp: handleInterrupted_def handleTurnComplete_def handleTranscriptions_def Let_def
        sameButTimeline_def le split: option.splits)
qed

lemma onmessage_sim:
  assumes "sameButTimeline c s s'" and "c \<le> currentTime env"
  shows "fst (onmessage cl env m s') = fst (onmessage cl env m s)
       \<and> sameButTimeline c (snd (onmessage cl env m s)) (snd (onmessage cl env m s'))"
proof (cases "audioData_of m")
  case (Inl e)
  then show ?thesis using assms by (simp add: onmessage_def)
next
  case (Inr ad)
  show ?thesis
  proof (cases "\<exists>a. ad = Some a \<and> truthy a")
    case False
    then have "ad = None \<or> (\<exists>a. ad = Some a \<and> \<not> truthy a)" by (cases ad) auto
    then show ?thesis using Inr later_parts_sim [OF assms(1)] by (auto simp: onmessage_def)
  next
    case True
    then obtain a where a: "ad = Some a" "truthy a" by auto
    obtain o1 t1 where p1: "scheduleAudio env a s = (o1, t1)"
      by (cases "scheduleAudio env a s")
    obtain o2 t2 where p2: "scheduleAudio env a s' = (o2, t2)"
      by (cases "scheduleAudio env a s'")
    from scheduleAudio_sim [OF assms, of a] p1 p2
    have "o2 = o1" and "sameButTimeline c t1 t2" by auto
    then show ?thesis
      using Inr a p1 p2 later_parts_sim [of c t1 t2]
      by (cases o1) (simp_all add: onmessage_def)
  qed
qed

lemma run_sim:
  assumes "sameButTimeline c s s'" and "list_all (\<lambda>(env, m). c \<le> currentTime env) later"
  shows "outcomes cl later s' = outcomes cl later s
       \<and> sameButTimeline c (run cl later s) (run cl later s')"
  using assms
proof (induction later arbitrary: s s')
  case Nil
  then show ?case by simp
next
  case (Cons em later)
  obtain env m where em: "em = (env, m)" by (cases em)
  from Cons.prems em have c: "c \<le> currentTime env"
    and rest: "list_all (\<lambda>(env, m). c \<le> currentTime env) later"
    by auto
  from onmessage_sim [OF Cons.prems(1) c]
  have f: "fst (onmessage cl env m s') = fst (onmessage cl env m s)"
    and r: "sameButTimeline c (snd (onmessage cl env m s)) (snd (onmessage cl env m s'))"
    by auto
  from Cons.IH [OF r rest] f show ?case by (simp add: em)
qed

lemma sameButTimeline_fields:
  assumes "sameButTimeline c s s'"
  shows "connectionStatus s' = connectionStatus s" "isActive s' = isActive s"
    "history s' = history s" "currentInput s' = currentInput s"
    "currentOutput s' = currentOutput s" "started s' = started s" "stopped s' = stopped s"
    "sourcesRef s' = sourcesRef s"
proof -
  from assms obtain x where s': "s' = s\<lparr>nextStartTimeRef := x\<rparr>"
    by (auto simp: sameButTimeline_def)
  show "connectionStatus s' = connectionStatus s" "isActive s' = isActive s"
    "history s' = history s" "currentInput s' = currentInput s"
    "currentOutput s' = currentOutput s" "started s' = started s" "stopped s' = stopped s"
    "sourcesRef s' = sourcesRef s"
    by (simp_all add: s')
qed

section \<open>Playback scheduling\<close>

text \<open>
  C1. Times are real numbers. For every audio fragment that decodes to a buffer and is
  handled while an output context exists, the unit is started at the maximum of the
  timeline cell and the device clock, and the timeline cell afterwards is that start time
  plus the buffer's duration. Hence three fragments handled from a timeline at 0, each
  at a device clock not after 0 and with durations that are not negative, start at
  0, d1 and d1 + d2; and when the first is handled at device clock 0 and the second at
  device clock d1 + 5, the second starts at d1 + 5.
\<close>

theorem playback_chain:
  assumes ctx: "audioContextRef s = Some (ic, oc)"
    and ne: "a1 \<noteq> []" "a2 \<noteq> []" "a3 \<noteq> []"
    and d1: "decodeFragment e1 oc a1 = Some b1"
    and d2: "decodeFragment e2 oc a2 = Some b2"
    and d3: "decodeFragment e3 oc a3 = Some b3"
  shows "started (snd (scheduleAudio e1 a1 s)) =
           started s @ [(nextHandle s, max (nextStartTimeRef s) (currentTime e1), duration b1)]
       \<and> nextStartTimeRef (snd (scheduleAudio e1 a1 s)) =
           max (nextStartTimeRef s) (currentTime e1) + duration b1
       \<and> (nextStartTimeRef s = 0 \<and> currentTime e1 \<le> 0 \<and> currentTime e2 \<le> 0
            \<and> currentTime e3 \<le> 0 \<and> 0 \<le> duration b1 \<and> 0 \<le> duration b2 \<longrightarrow>
          started (run cl [(e1, audioMessage a1), (e2, audioMessage a2), (e3, audioMessage a3)] s) =
            started s @
              [(nextHandle s, 0, duration b1),
               (Suc (nextHandle s), duration b1, duration b2),
               (Suc (Suc (nextHandle s)), duration b1 + duration b2, duration b3)])
       \<and> (nextStartTimeRef s = 0 \<and> currentTime e1 = 0 \<and> currentTime e2 = duration b1 + 5 \<longrightarrow>
          started (run cl [(e1, audioMessage a1), (e2, audioMessage a2)] s) =
            started s @
              [(nextHandle s, 0, duration b1),
               (Suc (nextHandle s), duration b1 + 5, duration b2)])"
  using assms by (simp add: scheduleAudio_decoded onmessage_audio_decoded max_def)

theorem playback_chain_witness:
  "started (run firstClosure
       [(envAt 0 2, audioMessage ''AAAA''), (envAt 0 3, audioMessage ''AAAA''),
        (envAt 0 1, audioMessage ''AAAA'')] connectedState) =
     [(4, 0, 2), (5, 2, 3), (6, 5, 1)]
   \<and> started (run firstClosure
       [(envAt 0 2, audioMessage ''AAAA''), (envAt 7 3, audioMessage ''AAAA'')] connectedState) =
     [(4, 0, 2), (5, 7, 3)]"
proof -
  have ctx: "audioContextRef connectedState = Some (0, 1)"
    by (simp add: connectedState_eq initial_def)
  have ne: "''AAAA'' \<noteq> []" by simp
  have chain:
    "started (run firstClosure
       [(envAt 0 2, audioMessage ''AAAA''), (envAt 0 3, audioMessage ''AAAA''),
        (envAt 0 1, audioMessage ''AAAA'')] connectedState) =
     [(4, 0, 2), (5, 2, 3), (6, 5, 1)]"
    using playback_chain [where s = connectedState and cl = firstClosure
        and ?e1.0 = "envAt 0 2" and ?e2.0 = "envAt 0 3" and ?e3.0 = "envAt 0 1"
        and ?b1.0 = "\<lparr> duration = 2 \<rparr>" and ?b2.0 = "\<lparr> duration = 3 \<rparr>"
        and ?b3.0 = "\<lparr> duration = 1 \<rparr>", OF ctx ne ne ne]
    by (simp add: decodeFragment_envAt currentTime_envAt connectedState_eq initial_def)
  have late:
    "started (run firstClosure
       [(envAt 0 2, audioMessage ''AAAA''), (envAt 7 3, audioMessage ''AAAA'')] connectedState) =
     [(4, 0, 2), (5, 7, 3)]"
    using playback_chain [where s = connectedState and cl = firstClosure
        and ?e1.0 = "envAt 0 2" and ?e2.0 = "envAt 7 3" and ?e3.0 = "envAt 0 1"
        and ?b1.0 = "\<lparr> duration = 2 \<rparr>" and ?b2.0 = "\<lparr> duration = 3 \<rparr>"
        and ?b3.0 = "\<lparr> duration = 1 \<rparr>", OF ctx ne ne ne]
    by (simp add: decodeFragment_envAt currentTime_envAt connectedState_eq initial_def)
  show ?thesis using chain late by simp
qed

text \<open>
  C2. Whatever the state (so after any number of scheduled fragments), a message with
  the interruption flag whose handling completes leaves every unit of the active set
  stopped, the active set empty and the timeline cell at 0; a fragment handled next at a
  device clock T, not negative, starts at T. With an empty active set the interruption
  event completes without an error, stops nothing and changes nothing but the timeline
  cell, which it sets to 0. When that cell was not ahead of the device clock (as it is
  once every scheduled unit has ended), the change is not seen either: messages handled
  later have the same outcomes and lead to the same state up to the timeline cell as
  without the interruption.
\<close>

theorem interruption_clears:
  assumes sc: "serverContent m = Some sc" and int: "interrupted sc"
    and fin: "onmessage cl env m s = (Fulfilled, s')"
  shows "sourcesRef s \<subseteq> stopped s' \<and> sourcesRef s' = {} \<and> nextStartTimeRef s' = 0
       \<and> (a \<noteq> [] \<and> audioContextRef s' = Some (ic, oc) \<and> decodeFragment env' oc a = Some buf
            \<and> 0 \<le> currentTime env' \<longrightarrow>
          started (snd (onmessage cl env' (audioMessage a) s')) =
            started s' @ [(nextHandle s', currentTime env', duration buf)])
       \<and> (sourcesRef s0 = {} \<longrightarrow>
          onmessage cl env interruptedMessage s0 = (Fulfilled, s0\<lparr>nextStartTimeRef := 0\<rparr>))
       \<and> (sourcesRef s0 = {} \<and> 0 \<le> nextStartTimeRef s0 \<and> nextStartTimeRef s0 \<le> c
            \<and> list_all (\<lambda>(e, m'). c \<le> currentTime e) later \<longrightarrow>
          outcomes cl later (snd (onmessage cl env interruptedMessage s0)) = outcomes cl later s0
          \<and> sameButTimeline c (run cl later (snd (onmessage cl env interruptedMessage s0)))
               (run cl later s0))"
proof -
  from onmessage_fulfilled [OF fin] obtain s1 where s': "s' =
      handleInterrupted m (handleTurnComplete cl env m (handleTranscriptions m s1))"
    and s1: "s1 = s \<or> (\<exists>x. s1 = snd (scheduleAudio env x s))"
    by blast
  from s1 have sub: "sourcesRef s \<subseteq> sourcesRef s1"
    using scheduleAudio_playback(1) by auto
  have cleared: "sourcesRef s \<subseteq> stopped s' \<and> sourcesRef s' = {} \<and> nextStartTimeRef s' = 0"
    using sc int sub
    by (simp add: s' handleInterrupted_def transcript_parts_keep_playback) blast
  have next_start: "started (snd (onmessage cl env' (audioMessage a) s')) =
      started s' @ [(nextHandle s', currentTime env', duration buf)]"
    if "a \<noteq> []" "audioContextRef s' = Some (ic, oc)" "decodeFragment env' oc a = Some buf"
      "0 \<le> currentTime env'"
    using that cleared by (simp add: onmessage_audio_decoded)
  have empty: "onmessage cl env interruptedMessage s0 = (Fulfilled, s0\<lparr>nextStartTimeRef := 0\<rparr>)"
    if "sourcesRef s0 = {}"
    using that by (simp add: onmessage_interruptedMessage)
  have unseen: "outcomes cl later (snd (onmessage cl env interruptedMessage s0)) =
        outcomes cl later s0
      \<and> sameButTimeline c (run cl later (snd (onmessage cl env interruptedMessage s0)))
           (run cl later s0)"
    if e: "sourcesRef s0 = {}" and lo: "0 \<le> nextStartTimeRef s0" and hi: "nextStartTimeRef s0 \<le> c"
      and l: "list_all (\<lambda>(e, m'). c \<le> currentTime e) later"
  proof -
    have rel: "sameButTimeline c (s0\<lparr>nextStartTimeRef := 0\<rparr>) s0"
      using lo hi by (simp add: sameButTimeline_def)
    from run_sim [OF rel l, of cl] show ?thesis
      by (simp add: empty [OF e])
  qed
  show ?thesis
    using cleared next_start empty unseen by blast
qed

lemma three_scheduled:
  "run firstClosure
       [(envAt 0 2, audioMessage ''AAAA''), (envAt 0 3, audioMessage ''AAAA''),
        (envAt 0 1, audioMessage ''AAAA'')] connectedState =
     connectedState\<lparr>nextStartTimeRef := 6, sourcesRef := {4, 5, 6},
       started := [(4, 0, 2), (5, 2, 3), (6, 5, 1)], nextHandle := 7\<rparr>"
  by (simp add: onmessage_audio_decoded [where ic = 0 and oc = 1] decodeFragment_envAt
      currentTime_envAt connectedState_eq initial_def insert_commute)

theorem interruption_clears_witness:
  "sourcesRef (run firstClosure
       [(envAt 0 2, audioMessage ''AAAA''), (envAt 0 3, audioMessage ''AAAA''),
        (envAt 0 1, audioMessage ''AAAA'')] connectedState) = {4, 5, 6}
   \<and> onmessage firstClosure (envAt 3 0) interruptedMessage
       (run firstClosure
         [(envAt 0 2, audioMessage ''AAAA''), (envAt 0 3, audioMessage ''AAAA''),
          (envAt 0 1, audioMessage ''AAAA'')] connectedState) =
       (Fulfilled,
        connectedState\<lparr>stopped := {4, 5, 6}, started := [(4, 0, 2), (5, 2, 3), (6, 5, 1)],
          nextHandle := 7\<rparr>)
   \<and> started (snd (onmessage firstClosure (envAt 9 4) (audioMessage ''AAAA'')
         (connectedState\<lparr>stopped := {4, 5, 6}, started := [(4, 0, 2), (5, 2, 3), (6, 5, 1)],
            nextHandle := 7\<rparr>))) =
       [(4, 0, 2), (5, 2, 3), (6, 5, 1), (7, 9, 4)]
   \<and> sourcesRef (onended 4 playingState) = {}
   \<and> nextStartTimeRef (onended 4 playingState) = 2
   \<and> onmessage firstClosure (envAt 3 0) interruptedMessage (onended 4 playingState) =
       (Fulfilled, (onended 4 playingState)\<lparr>nextStartTimeRef := 0\<rparr>)
   \<and> started (run firstClosure [(envAt 4 1, audioMessage ''AAAA'')]
        (snd (onmessage firstClosure (envAt 3 0) interruptedMessage (onended 4 playingState)))) =
       [(4, 0, 2), (5, 4, 1)]
   \<and> started (run firstClosure [(envAt 4 1, audioMessage ''AAAA'')] (onended 4 playingState)) =
       [(4, 0, 2), (5, 4, 1)]"
proof -
  let ?s3 = "run firstClosure
       [(envAt 0 2, audioMessage ''AAAA''), (envAt 0 3, audioMessage ''AAAA''),
        (envAt 0 1, audioMessage ''AAAA'')] connectedState"
  let ?s4 = "connectedState\<lparr>stopped := {4, 5, 6}, started := [(4, 0, 2), (5, 2, 3), (6, 5, 1)],
          nextHandle := 7\<rparr>"
  let ?s0 = "onended 4 playingState"
  let ?later = "[(envAt 4 1, audioMessage ''AAAA'')]"
  have sc: "serverContent interruptedMessage = Some (emptyContent\<lparr>interrupted := True\<rparr>)"
    by (simp add: interruptedMessage_def)
  have int: "interrupted (emptyContent\<lparr>interrupted := True\<rparr>)" by simp
  have fin: "onmessage firstClosure (envAt 3 0) interruptedMessage ?s3 = (Fulfilled, ?s4)"
    unfolding three_scheduled
    by (simp add: onmessage_interruptedMessage connectedState_eq initial_def)
  have s0: "?s0 = connectedState\<lparr>nextStartTimeRef := 2, started := [(4, 0, 2)],
      nextHandle := 5\<rparr>"
    by (simp add: playingState_eq onended_def connectedState_eq initial_def)
  have ended: "sourcesRef ?s0 = {}" "nextStartTimeRef ?s0 = 2"
    unfolding s0 by (simp_all add: connectedState_eq initial_def)
  have ctx: "audioContextRef ?s4 = Some (0, 1)"
    by (simp add: connectedState_eq initial_def)
  have later: "list_all (\<lambda>(e, m'). 3 \<le> currentTime e) ?later"
    by (simp add: currentTime_envAt)
  have plain: "started (run firstClosure ?later ?s0) = [(4, 0, 2), (5, 4, 1)]"
    unfolding s0
    by (simp add: onmessage_audio_decoded [where ic = 0 and oc = 1] decodeFragment_envAt
        currentTime_envAt connectedState_eq initial_def)
  note th = interruption_clears [OF sc int fin, where a = "''AAAA''" and ic = 0 and oc = 1
      and env' = "envAt 9 4" and buf = "\<lparr> duration = 4 \<rparr>" and ?s0.0 = ?s0 and c = 3
      and later = ?later]
  have ne: "''AAAA'' \<noteq> []" by simp
  have dec: "decodeFragment (envAt 9 4) 1 ''AAAA'' = Some \<lparr> duration = 4 \<rparr>"
    by (rule decodeFragment_envAt)
  have clock: "0 \<le> currentTime (envAt 9 4)"
    by (simp add: currentTime_envAt)
  from th ne ctx dec clock have next_start:
    "started (snd (onmessage firstClosure (envAt 9 4) (audioMessage ''AAAA'') ?s4)) =
       started ?s4 @ [(nextHandle ?s4, currentTime (envAt 9 4), duration \<lparr> duration = 4 \<rparr>)]"
    by blast
  from th ended have noop:
    "onmessage firstClosure (envAt 3 0) interruptedMessage ?s0 =
       (Fulfilled, ?s0\<lparr>nextStartTimeRef := 0\<rparr>)"
    by blast
  have lo: "0 \<le> nextStartTimeRef ?s0" and hi: "nextStartTimeRef ?s0 \<le> 3"
    by (simp_all add: ended)
  from th ended(1) lo hi later have
    "sameButTimeline 3
       (run firstClosure ?later (snd (onmessage firstClosure (envAt 3 0) interruptedMessage ?s0)))
       (run firstClosure ?later ?s0)"
    by blast
  from sameButTimeline_fields(6) [OF this, symmetric] plain have unseen:
    "started (run firstClosure ?later
        (snd (onmessage firstClosure (envAt 3 0) interruptedMessage ?s0))) =
       [(4, 0, 2), (5, 4, 1)]"
    by (rule trans)
  have next_start': "started (snd (onmessage firstClosure (envAt 9 4) (audioMessage ''AAAA'') ?s4)) =
       [(4, 0, 2), (5, 2, 3), (6, 5, 1), (7, 9, 4)]"
    unfolding next_start by (simp add: currentTime_envAt)
  have active: "sourcesRef ?s3 = {4, 5, 6}"
    unfolding three_scheduled by simp
  show ?thesis
    using active fin next_start' ended noop unseen plain by (intro conjI)
qed

section \<open>Decoding failures\<close>

lemma audioData_of_mixedMessage: "audioData_of (mixedMessage a) = Inr (Some a)"
  by (simp add: audioData_of_def mixedMessage_def emptyContent_def)

lemma onmessage_failed:
  assumes "audioData_of m = Inr (Some a)" and "a \<noteq> []"
    and "audioContextRef s = Some (ic, oc)" and "decodeFragment env oc a = None"
  shows "onmessage cl env m s =
     (Rejected DecodeError,
      s\<lparr>nextStartTimeRef := max (nextStartTimeRef s) (currentTime env)\<rparr>)"
  using assms(1,2) by (simp add: onmessage_def truthy_def scheduleAudio_failed [OF assms(3,4)])

text \<open>
  C6, as the code has it. There is no handler for a decoding failure in \<open>onmessage\<close>:
  the exception ends the call for the whole message with a rejected promise. The status
  does not become error, nothing is scheduled, and the history, the accumulators and
  the active set are as before; only the timeline cell is raised to the device clock.
  The transcript, turn-complete and interruption parts of the same message are not
  handled. The state that is left does not disturb a later call: for any message and a
  device clock not before that of the failed call, \<open>onmessage\<close> has the same outcome
  and leaves the same state up to the timeline cell as it would without the failed call.
\<close>

theorem decode_failure_abandons_message:
  assumes ad: "audioData_of m = Inr (Some a)" and ne: "a \<noteq> []"
    and ctx: "audioContextRef s = Some (ic, oc)"
    and fail: "decodeFragment env oc a = None"
    and clock: "currentTime env \<le> currentTime env'"
  shows "onmessage cl env m s =
           (Rejected DecodeError,
            s\<lparr>nextStartTimeRef := max (nextStartTimeRef s) (currentTime env)\<rparr>)
       \<and> connectionStatus (snd (onmessage cl env m s)) = connectionStatus s
       \<and> isActive (snd (onmessage cl env m s)) = isActive s
       \<and> history (snd (onmessage cl env m s)) = history s
       \<and> currentInput (snd (onmessage cl env m s)) = currentInput s
       \<and> currentOutput (snd (onmessage cl env m s)) = currentOutput s
       \<and> started (snd (onmessage cl env m s)) = started s
       \<and> sourcesRef (snd (onmessage cl env m s)) = sourcesRef s
       \<and> stopped (snd (onmessage cl env m s)) = stopped s
       \<and> fst (onmessage cl env' m' (snd (onmessage cl env m s))) = fst (onmessage cl env' m' s)
       \<and> sameButTimeline (currentTime env)
           (snd (onmessage cl env' m' s))
           (snd (onmessage cl env' m' (snd (onmessage cl env m s))))"
proof -
  let ?s' = "s\<lparr>nextStartTimeRef := max (nextStartTimeRef s) (currentTime env)\<rparr>"
  have rej: "onmessage cl env m s = (Rejected DecodeError, ?s')"
    by (rule onmessage_failed [OF ad ne ctx fail])
  have rel: "sameButTimeline (currentTime env) s ?s'"
    by (simp add: sameButTimeline_def)
  from onmessage_sim [OF rel clock, of cl m']
  show ?thesis by (simp add: rej)
qed

theorem decode_failure_abandons_message_witness:
  "currentTime (envFailing 5) \<le> currentTime (envAt 5 3)
   \<and> onmessage firstClosure (envFailing 5) (mixedMessage ''!!!!'') playingState =
       (Rejected DecodeError, playingState\<lparr>nextStartTimeRef := 5\<rparr>)
   \<and> connectionStatus (snd (onmessage firstClosure (envFailing 5) (mixedMessage ''!!!!'')
        playingState)) = Connected
   \<and> fst (onmessage firstClosure (envAt 5 3) (audioMessage ''AAAA'')
        (snd (onmessage firstClosure (envFailing 5) (mixedMessage ''!!!!'') playingState))) =
       Fulfilled
   \<and> started (snd (onmessage firstClosure (envAt 5 3) (audioMessage ''AAAA'')
        (snd (onmessage firstClosure (envFailing 5) (mixedMessage ''!!!!'') playingState)))) =
       [(4, 0, 2), (5, 5, 3)]"
proof -
  let ?failed = "snd (onmessage firstClosure (envFailing 5) (mixedMessage ''!!!!'') playingState)"
  have ne: "''!!!!'' \<noteq> []" by simp
  have ctx: "audioContextRef playingState = Some (0, 1)"
    by (simp add: playingState_eq connectedState_eq initial_def)
  have clock: "currentTime (envFailing 5) \<le> currentTime (envAt 5 3)"
    by (simp add: envFailing_def envAt_def)
  have st: "connectionStatus playingState = Connected"
    and mx: "max (nextStartTimeRef playingState) (currentTime (envFailing 5)) = 5"
    by (simp_all add: playingState_eq connectedState_eq initial_def envFailing_def)
  have s1: "snd (onmessage firstClosure (envAt 5 3) (audioMessage ''AAAA'') playingState) =
      connectedState\<lparr>nextStartTimeRef := 8, sourcesRef := {4, 5},
        started := [(4, 0, 2), (5, 5, 3)], nextHandle := 6\<rparr>"
    by (simp add: playingState_eq onmessage_audio_decoded [where ic = 0 and oc = 1]
        decodeFragment_envAt currentTime_envAt connectedState_eq initial_def insert_commute)
  have f1: "fst (onmessage firstClosure (envAt 5 3) (audioMessage ''AAAA'') playingState) =
      Fulfilled"
    by (simp add: playingState_eq onmessage_audio_decoded [where ic = 0 and oc = 1]
        decodeFragment_envAt connectedState_eq initial_def)
  have plain: "started (snd (onmessage firstClosure (envAt 5 3) (audioMessage ''AAAA'')
      playingState)) = [(4, 0, 2), (5, 5, 3)]"
    unfolding s1 by simp
  note th = decode_failure_abandons_message [OF audioData_of_mixedMessage ne ctx
      decodeFragment_envFailing clock, of firstClosure "audioMessage ''AAAA''"]
  from th have c1: "onmessage firstClosure (envFailing 5) (mixedMessage ''!!!!'') playingState =
      (Rejected DecodeError, playingState\<lparr>nextStartTimeRef := 5\<rparr>)"
    unfolding mx by (elim conjE)
  from th have c2: "connectionStatus ?failed = connectionStatus playingState"
    by (elim conjE)
  from th have c3: "fst (onmessage firstClosure (envAt 5 3) (audioMessage ''AAAA'') ?failed) =
      fst (onmessage firstClosure (envAt 5 3) (audioMessage ''AAAA'') playingState)"
    by (elim conjE)
  from th have c4: "sameButTimeline (currentTime (envFailing 5))
      (snd (onmessage firstClosure (envAt 5 3) (audioMessage ''AAAA'') playingState))
      (snd (onmessage firstClosure (envAt 5 3) (audioMessage ''AAAA'') ?failed))"
    by (elim conjE)
  show ?thesis
  proof (intro conjI)
    show "currentTime (envFailing 5) \<le> currentTime (envAt 5 3)"
      by (rule clock)
    show "onmessage firstClosure (envFailing 5) (mixedMessage ''!!!!'') playingState =
      (Rejected DecodeError, playingState\<lparr>nextStartTimeRef := 5\<rparr>)"
      by (rule c1)
    show "connectionStatus ?failed = Connected"
      using c2 st by (rule trans)
    show "fst (onmessage firstClosure (envAt 5 3) (audioMessage ''AAAA'') ?failed) = Fulfilled"
      using c3 f1 by (rule trans)
    show "started (snd (onmessage firstClosure (envAt 5 3) (audioMessage ''AAAA'') ?failed)) =
      [(4, 0, 2), (5, 5, 3)]"
      using sameButTimeline_fields(6) [OF c4] plain by (rule trans)
  qed
qed

text \<open>
  C6 as stated fails. A message carries an undecodable fragment together with the
  turn-complete and interruption flags. The events that follow the fragment in that
  message are lost: no history entry is appended and the playing unit is not stopped.
  With a fragment that decodes, the same message appends the two entries and stops the
  units.
\<close>

theorem decode_failure_counterexample:
  "onmessage firstClosure (envFailing 5) (mixedMessage ''!!!!'') playingState =
     (Rejected DecodeError, playingState\<lparr>nextStartTimeRef := 5\<rparr>)
   \<and> history (snd (onmessage firstClosure (envFailing 5) (mixedMessage ''!!!!'')
        playingState)) = []
   \<and> sourcesRef (snd (onmessage firstClosure (envFailing 5) (mixedMessage ''!!!!'')
        playingState)) = {4}
   \<and> stopped (snd (onmessage firstClosure (envFailing 5) (mixedMessage ''!!!!'')
        playingState)) = {}
   \<and> fst (onmessage firstClosure (envAt 5 3) (mixedMessage ''!!!!'') playingState) = Fulfilled
   \<and> map entry_type (history (snd (onmessage firstClosure (envAt 5 3) (mixedMessage ''!!!!'')
        playingState))) = [User, Model]
   \<and> sourcesRef (snd (onmessage firstClosure (envAt 5 3) (mixedMessage ''!!!!'')
        playingState)) = {}
   \<and> stopped (snd (onmessage firstClosure (envAt 5 3) (mixedMessage ''!!!!'')
        playingState)) = {4, 5}"
proof -
  have ne: "''!!!!'' \<noteq> []" by simp
  have ctx: "audioContextRef playingState = Some (0, 1)"
    by (simp add: playingState_eq connectedState_eq initial_def)
  have mx: "max (nextStartTimeRef playingState) (currentTime (envFailing 5)) = 5"
    by (simp add: playingState_eq connectedState_eq initial_def envFailing_def)
  have failed: "onmessage firstClosure (envFailing 5) (mixedMessage ''!!!!'') playingState =
      (Rejected DecodeError, playingState\<lparr>nextStartTimeRef := 5\<rparr>)"
    using onmessage_failed [OF audioData_of_mixedMessage ne ctx
        decodeFragment_envFailing [where t = 5], where cl = firstClosure]
    unfolding mx .
  have sched: "scheduleAudio (envAt 5 3) ''!!!!'' playingState =
      (Fulfilled,
       connectedState\<lparr>nextStartTimeRef := 8, sourcesRef := {4, 5},
         started := [(4, 0, 2), (5, 5, 3)], nextHandle := 6\<rparr>)"
    by (simp add: scheduleAudio_decoded [where ic = 0 and oc = 1] decodeFragment_envAt
        currentTime_envAt playingState_eq connectedState_eq initial_def insert_commute)
  have decoded: "onmessage firstClosure (envAt 5 3) (mixedMessage ''!!!!'') playingState =
      (Fulfilled,
       connectedState\<lparr>nextStartTimeRef := 0, sourcesRef := {}, stopped := {4, 5},
         started := [(4, 0, 2), (5, 5, 3)], nextHandle := 6,
         history :=
           [\<lparr> entry_id = ''0.1'', entry_type = User, entry_text = [], entry_timestamp = 1000 \<rparr>,
            \<lparr> entry_id = ''0.2'', entry_type = Model, entry_text = [],
              entry_timestamp = 1000 \<rparr>]\<rparr>)"
    by (simp add: onmessage_def audioData_of_mixedMessage truthy_def sched)
       (simp add: mixedMessage_def emptyContent_def handleInterrupted_def handleTurnComplete_def
        handleTranscriptions_def connectedState_eq initial_def envAt_def firstClosure_def)
  show ?thesis
    unfolding failed decoded
    by (simp add: playingState_eq connectedState_eq initial_def)
qed

section \<open>Transcript\<close>

lemma onmessage_turnComplete_history:
  assumes sc: "serverContent m = Some sc" and tc: "turnComplete sc"
    and fin: "fst (onmessage cl env m s) = Fulfilled"
  shows "history (snd (onmessage cl env m s)) =
           history s @
             [\<lparr> entry_id = random1 env, entry_type = User,
                entry_text = cl_currentInput cl, entry_timestamp = now1 env \<rparr>,
              \<lparr> entry_id = random2 env, entry_type = Model,
                entry_text = cl_currentOutput cl, entry_timestamp = now2 env \<rparr>]"
proof -
  from fin have "onmessage cl env m s = (Fulfilled, snd (onmessage cl env m s))"
    by (cases "onmessage cl env m s") simp
  from onmessage_fulfilled [OF this] obtain s1 where s': "snd (onmessage cl env m s) =
      handleInterrupted m (handleTurnComplete cl env m (handleTranscriptions m s1))"
    and s1: "s1 = s \<or> (\<exists>x. s1 = snd (scheduleAudio env x s))"
    by blast
  from s1 have h: "history s1 = history s"
    using scheduleAudio_history by auto
  show ?thesis
    using sc tc h
    by (simp add: s' handleInterrupted_def handleTurnComplete_def handleTranscriptions_def Let_def
        split: option.splits)
qed

lemma stoppedMidTurn_eq:
  "stoppedMidTurn =
     connectedState\<lparr>isActive := False, connectionStatus := Idle, currentInput := ''hi'',
       openContexts := {}, liveStreams := {}, openSessions := {}\<rparr>"
  by (simp add: stoppedMidTurn_def onmessage_inputMessage handleStartSession_def stopAudio_def
      Let_def connectedState_eq initial_def)

lemma second_start:
  "handleStartSession allOk stoppedMidTurn =
     (Some secondClosure,
      connectedState\<lparr>isActive := False, connectionStatus := Connecting, currentInput := ''hi'',
        sessionRef := Some 7, audioContextRef := Some (4, 5), streamRef := Some 6,
        openContexts := {4, 5}, liveStreams := {6}, openSessions := {7}, nextHandle := 8\<rparr>)"
  unfolding stoppedMidTurn_eq
  by (simp add: handleStartSession_def allOk_def setupAudio_def Let_def secondClosure_def
      connectedState_eq initial_def insert_commute)

text \<open>
  C10, evaluated. Two entries, user then model, are appended by every handled
  turn-complete event, with no test on the texts. Their texts are not the accumulated
  ones: the first session is stopped in the middle of a turn, after the partial user
  transcript "hi", and the stop path leaves the accumulator as it is; the session started
  next holds "hi" as its \<open>currentInput\<close> constant. In that second session two
  turn-complete events arrive with no transcribed speech before or between them. Before
  the second of them both accumulators are empty, and the four entries have the texts
  "hi", empty, "hi", empty.
\<close>

theorem no_speech_turn_not_empty:
  "fst (handleStartSession allOk stoppedMidTurn) = Some secondClosure
   \<and> currentInput (run secondClosure [(envAt 0 0, turnCompleteMessage)] secondSessionState) = []
   \<and> currentOutput (run secondClosure [(envAt 0 0, turnCompleteMessage)] secondSessionState) = []
   \<and> map entry_type (history (run secondClosure
        [(envAt 0 0, turnCompleteMessage), (envAt 0 0, turnCompleteMessage)]
        secondSessionState)) = [User, Model, User, Model]
   \<and> map entry_text (history (run secondClosure
        [(envAt 0 0, turnCompleteMessage), (envAt 0 0, turnCompleteMessage)]
        secondSessionState)) = [''hi'', [], ''hi'', []]"
  unfolding secondSessionState_def second_start
  by (simp add: onmessage_turnCompleteMessage onopen_def secondClosure_def connectedState_eq
      initial_def)

text \<open>
  C7, evaluated. The accumulators are reset by a turn-complete event, but the two
  entries do not hold the accumulated text: \<open>onmessage\<close> reads \<open>currentInput\<close> and
  \<open>currentOutput\<close> as constants of the render in which the session was started. In
  the first session, after the partial transcripts "hi" (user) and "yo" (model), the
  accumulators hold "hi" and "yo", and the turn-complete event appends two entries with
  empty text.
\<close>

theorem turn_complete_uses_captured_text:
  "currentInput (run firstClosure
      [(envAt 0 0, inputMessage ''hi''), (envAt 0 0, outputMessage ''yo'')] connectedState) = ''hi''
   \<and> currentOutput (run firstClosure
      [(envAt 0 0, inputMessage ''hi''), (envAt 0 0, outputMessage ''yo'')] connectedState) = ''yo''
   \<and> map entry_text (history (run firstClosure
      [(envAt 0 0, inputMessage ''hi''), (envAt 0 0, outputMessage ''yo''),
       (envAt 0 0, turnCompleteMessage)] connectedState)) = [[], []]
   \<and> currentInput (run firstClosure
      [(envAt 0 0, inputMessage ''hi''), (envAt 0 0, outputMessage ''yo''),
       (envAt 0 0, turnCompleteMessage), (envAt 0 0, inputMessage ''ok'')] connectedState) = ''ok''"
  by (simp add: onmessage_inputMessage onmessage_outputMessage onmessage_turnCompleteMessage
      connectedState_eq initial_def firstClosure_def)

section \<open>Capture and mute\<close>

lemma captureRun_sent:
  "sent (captureRun createPcmBlob cl events s) =
     sent s @ (if cl_isMuted cl then []
               else concat (map (\<lambda>e. case e of
                       FrameDelivered inputData \<Rightarrow> [(cl_session cl, createPcmBlob inputData)]
                     | MuteClicked \<Rightarrow> []) events))"
proof (induction events arbitrary: s)
  case Nil
  then show ?case by simp
next
  case (Cons e events)
  then show ?case
    by (cases e) (simp_all add: onaudioprocess_def toggleMute_def)
qed

lemma captureRun_devices:
  "liveStreams (captureRun createPcmBlob cl events s) = liveStreams s
   \<and> openContexts (captureRun createPcmBlob cl events s) = openContexts s
   \<and> captureGraphs (captureRun createPcmBlob cl events s) = captureGraphs s"
proof (induction events arbitrary: s)
  case Nil
  then show ?case by simp
next
  case (Cons e events)
  then show ?case
    by (cases e) (simp_all add: onaudioprocess_def toggleMute_def)
qed

text \<open>
  C4, evaluated. The mute button changes the \<open>isMuted\<close> state cell and nothing else,
  so no device is released or acquired by it. The capture callback of a running session
  does not read that cell: it tests the \<open>isMuted\<close> of the render in which the session
  was started. In the first session, started unmuted, mute is turned on, two frames are
  delivered, mute is turned off and a third frame is delivered: mute is on when the
  first two frames arrive, and all three frames are sent.
\<close>

theorem mute_toggle_not_seen:
  "isMuted (captureRun createPcmBlob firstClosure [MuteClicked] connectedState)
   \<and> isMuted (captureRun createPcmBlob firstClosure
        [MuteClicked, FrameDelivered frame1, FrameDelivered frame2] connectedState)
   \<and> sent (captureRun createPcmBlob firstClosure
        [MuteClicked, FrameDelivered frame1, FrameDelivered frame2, MuteClicked,
         FrameDelivered frame3] connectedState) =
      [(3, createPcmBlob frame1), (3, createPcmBlob frame2), (3, createPcmBlob frame3)]
   \<and> liveStreams (captureRun createPcmBlob firstClosure
        [MuteClicked, FrameDelivered frame1, FrameDelivered frame2, MuteClicked,
         FrameDelivered frame3] connectedState) = {2}
   \<and> openContexts (captureRun createPcmBlob firstClosure
        [MuteClicked, FrameDelivered frame1, FrameDelivered frame2, MuteClicked,
         FrameDelivered frame3] connectedState) = {0, 1}"
  by (simp add: toggleMute_def onaudioprocess_def connectedState_eq initial_def firstClosure_def)

section \<open>Session life cycle\<close>

text \<open>
  C5, evaluated. \<open>onerror\<close> sets the status to error and \<open>onclose\<close> sets it to idle,
  and neither does anything else. From the connected state with one unit scheduled, the
  stream's tracks stay live, both audio contexts stay open, the capture graph stays
  attached and the unit stays scheduled and is not stopped; from the connecting state
  the stream and the contexts stay held as well. The stop path of
  \<open>handleStartSession\<close> from the connected state releases all of them.
\<close>

theorem error_and_close_release_nothing:
  "connectionStatus (onerror playingState) = Error
   \<and> connectionStatus (onclose playingState) = Idle
   \<and> connectionStatus (onerror (snd (handleStartSession allOk initial))) = Error
   \<and> connectionStatus (onclose (snd (handleStartSession allOk initial))) = Idle
   \<and> liveStreams (onerror (snd (handleStartSession allOk initial))) = {2}
   \<and> liveStreams (onclose (snd (handleStartSession allOk initial))) = {2}
   \<and> openContexts (onerror (snd (handleStartSession allOk initial))) = {0, 1}
   \<and> openContexts (onclose (snd (handleStartSession allOk initial))) = {0, 1}
   \<and> liveStreams (onerror playingState) = {2} \<and> liveStreams (onclose playingState) = {2}
   \<and> openContexts (onerror playingState) = {0, 1}
   \<and> openContexts (onclose playingState) = {0, 1}
   \<and> captureGraphs (onerror playingState) = {(0, 2)}
   \<and> captureGraphs (onclose playingState) = {(0, 2)}
   \<and> sourcesRef (onerror playingState) = {4} \<and> sourcesRef (onclose playingState) = {4}
   \<and> stopped (onerror playingState) = {} \<and> stopped (onclose playingState) = {}
   \<and> liveStreams (snd (handleStartSession allOk playingState)) = {}
   \<and> openContexts (snd (handleStartSession allOk playingState)) = {}
   \<and> stopped (snd (handleStartSession allOk playingState)) = {4}"
  unfolding start_from_initial
  by (simp add: onerror_def onclose_def playingState_eq connectedState_eq initial_def
      handleStartSession_def stopAudio_def Let_def)

text \<open>
  C8, as the code has it. The one handler is a toggle: invoked while a session is active
  it is the stop path, whatever the platform would answer to a start. It opens no
  session and acquires nothing; it sets the status to idle, closes the session held in
  \<open>sessionRef\<close>, stops the tracks of the stream in \<open>streamRef\<close>, closes both contexts
  of \<open>audioContextRef\<close>, stops every active playback unit and resets the timeline.
\<close>

theorem start_while_active_stops:
  assumes "isActive s"
  shows "fst (handleStartSession env s) = None
       \<and> connectionStatus (snd (handleStartSession env s)) = Idle
       \<and> \<not> isActive (snd (handleStartSession env s))
       \<and> nextHandle (snd (handleStartSession env s)) = nextHandle s
       \<and> openSessions (snd (handleStartSession env s)) = openSessions s - set_option (sessionRef s)
       \<and> liveStreams (snd (handleStartSession env s)) = liveStreams s - set_option (streamRef s)
       \<and> openContexts (snd (handleStartSession env s)) =
           openContexts s - (case audioContextRef s of None \<Rightarrow> {}
                             | Some (inputCtx, outputCtx) \<Rightarrow> {inputCtx, outputCtx})
       \<and> sourcesRef s \<subseteq> stopped (snd (handleStartSession env s))
       \<and> sourcesRef (snd (handleStartSession env s)) = {}
       \<and> nextStartTimeRef (snd (handleStartSession env s)) = 0"
  using assms
  by (auto simp: handleStartSession_def stopAudio_def Let_def split: option.splits)

theorem start_while_active_stops_witness:
  "isActive playingState
   \<and> fst (handleStartSession allOk playingState) = None
   \<and> connectionStatus (snd (handleStartSession allOk playingState)) = Idle
   \<and> openSessions (snd (handleStartSession allOk playingState)) = {}
   \<and> liveStreams (snd (handleStartSession allOk playingState)) = {}
   \<and> openContexts (snd (handleStartSession allOk playingState)) = {}
   \<and> sourcesRef (snd (handleStartSession allOk playingState)) = {}
   \<and> nextHandle (snd (handleStartSession allOk playingState)) = 5"
proof -
  have act: "isActive playingState"
    by (simp add: playingState_eq connectedState_eq initial_def)
  show ?thesis
    using start_while_active_stops [OF act, of allOk] act
    by (simp add: playingState_eq connectedState_eq initial_def)
qed

text \<open>
  C8 as stated fails. From the connected state a second invocation is neither refused
  nor without effect: it ends the session. While the first start is still connecting
  (\<open>isActive\<close> not yet set) a second invocation starts again: a second session is
  opened beside the first, with a second stream and a second pair of contexts, and the
  refs are overwritten.
\<close>

theorem second_start_counterexample:
  "fst (handleStartSession allOk connectedState) = None
   \<and> connectionStatus (snd (handleStartSession allOk connectedState)) = Idle
   \<and> openSessions (snd (handleStartSession allOk connectedState)) = {}
   \<and> snd (handleStartSession allOk connectedState) \<noteq> connectedState
   \<and> connectionStatus (snd (handleStartSession allOk initial)) = Connecting
   \<and> fst (handleStartSession allOk (snd (handleStartSession allOk initial))) =
       Some (firstClosure\<lparr>cl_inputCtx := 4, cl_stream := 6, cl_session := 7\<rparr>)
   \<and> openSessions (snd (handleStartSession allOk (snd (handleStartSession allOk initial)))) =
       {3, 7}
   \<and> liveStreams (snd (handleStartSession allOk (snd (handleStartSession allOk initial)))) =
       {2, 6}
   \<and> openContexts (snd (handleStartSession allOk (snd (handleStartSession allOk initial)))) =
       {0, 1, 4, 5}"
proof -
  have stop: "handleStartSession allOk connectedState =
      (None, connectedState\<lparr>isActive := False, connectionStatus := Idle, openContexts := {},
         liveStreams := {}, openSessions := {}\<rparr>)"
    by (simp add: connectedState_eq initial_def handleStartSession_def stopAudio_def Let_def)
  have twice: "handleStartSession allOk (snd (handleStartSession allOk initial)) =
      (Some (firstClosure\<lparr>cl_inputCtx := 4, cl_stream := 6, cl_session := 7\<rparr>),
       initial\<lparr>connectionStatus := Connecting, sessionRef := Some 7,
         audioContextRef := Some (4, 5), streamRef := Some 6, openContexts := {0, 1, 4, 5},
         liveStreams := {2, 6}, openSessions := {3, 7}, nextHandle := 8\<rparr>)"
    unfolding start_from_initial
    by (simp add: handleStartSession_def allOk_def initial_def setupAudio_def Let_def
        firstClosure_def insert_commute)
  have differs: "isActive (snd (handleStartSession allOk connectedState)) \<noteq> isActive connectedState"
    unfolding stop by (simp add: connectedState_eq initial_def)
  then have neq: "snd (handleStartSession allOk connectedState) \<noteq> connectedState"
    by auto
  have stopped_parts: "fst (handleStartSession allOk connectedState) = None"
    "connectionStatus (snd (handleStartSession allOk connectedState)) = Idle"
    "openSessions (snd (handleStartSession allOk connectedState)) = {}"
    unfolding stop by simp_all
  have connecting: "connectionStatus (snd (handleStartSession allOk initial)) = Connecting"
    unfolding start_from_initial by simp
  have twice_parts:
    "fst (handleStartSession allOk (snd (handleStartSession allOk initial))) =
       Some (firstClosure\<lparr>cl_inputCtx := 4, cl_stream := 6, cl_session := 7\<rparr>)"
    "openSessions (snd (handleStartSession allOk (snd (handleStartSession allOk initial)))) =
       {3, 7}"
    "liveStreams (snd (handleStartSession allOk (snd (handleStartSession allOk initial)))) =
       {2, 6}"
    "openContexts (snd (handleStartSession allOk (snd (handleStartSession allOk initial)))) =
       {0, 1, 4, 5}"
    unfolding twice by simp_all
  show ?thesis
    using neq stopped_parts connecting twice_parts by (intro conjI)
qed

text \<open>
  C9, as the code has it. When a start attempt fails at an audio context or at the
  microphone, the exception is caught in the handler and the status is set to error;
  \<open>isActive\<close> stays unset, no session is opened, and no stream is acquired or stored.
\<close>

theorem failed_acquisition_sets_error:
  assumes "\<not> isActive s"
    and "\<not> inputContextOk env \<or> \<not> outputContextOk env \<or> \<not> microphoneOk env"
  shows "fst (handleStartSession env s) = None
       \<and> connectionStatus (snd (handleStartSession env s)) = Error
       \<and> \<not> isActive (snd (handleStartSession env s))
       \<and> sessionRef (snd (handleStartSession env s)) = sessionRef s
       \<and> openSessions (snd (handleStartSession env s)) = openSessions s
       \<and> streamRef (snd (handleStartSession env s)) = streamRef s
       \<and> liveStreams (snd (handleStartSession env s)) = liveStreams s"
  using assms
  by (auto simp: handleStartSession_def setupAudio_def Let_def)

theorem failed_acquisition_sets_error_witness:
  "\<not> isActive initial \<and> \<not> microphoneOk (allOk\<lparr>microphoneOk := False\<rparr>)
   \<and> fst (handleStartSession (allOk\<lparr>microphoneOk := False\<rparr>) initial) = None
   \<and> connectionStatus (snd (handleStartSession (allOk\<lparr>microphoneOk := False\<rparr>) initial)) = Error
   \<and> liveStreams (snd (handleStartSession (allOk\<lparr>microphoneOk := False\<rparr>) initial)) = {}
   \<and> streamRef (snd (handleStartSession (allOk\<lparr>microphoneOk := False\<rparr>) initial)) = None"
proof -
  have idle: "\<not> isActive initial" by (simp add: initial_def)
  have denied: "\<not> inputContextOk (allOk\<lparr>microphoneOk := False\<rparr>)
      \<or> \<not> outputContextOk (allOk\<lparr>microphoneOk := False\<rparr>)
      \<or> \<not> microphoneOk (allOk\<lparr>microphoneOk := False\<rparr>)"
    by simp
  show ?thesis
    using failed_acquisition_sets_error [OF idle denied] idle
    by (simp add: initial_def)
qed


text \<open>
  C9 as stated fails. With the microphone denied, the start attempt from the initial
  state ends in status error, not idle, and the two audio contexts created before the
  request stay open and stay in \<open>audioContextRef\<close>.
\<close>

theorem denied_microphone_counterexample:
  "fst (handleStartSession (allOk\<lparr>microphoneOk := False\<rparr>) initial) = None
   \<and> connectionStatus (snd (handleStartSession (allOk\<lparr>microphoneOk := False\<rparr>) initial)) = Error
   \<and> connectionStatus (snd (handleStartSession (allOk\<lparr>microphoneOk := False\<rparr>) initial)) \<noteq> Idle
   \<and> openContexts (snd (handleStartSession (allOk\<lparr>microphoneOk := False\<rparr>) initial)) = {0, 1}
   \<and> audioContextRef (snd (handleStartSession (allOk\<lparr>microphoneOk := False\<rparr>) initial)) =
       Some (0, 1)"
  by (simp add: handleStartSession_def allOk_def initial_def setupAudio_def Let_def insert_commute)


section \<open>Round trip of the sample codec\<close>

lemma cat_bytes: "word_cat (ucast (drop_bit 8 w) :: 8 word) (ucast w :: 8 word) = (w :: 16 word)"
  by (rule bit_word_eqI) (auto simp: bit_word_cat_iff bit_ucast_iff bit_drop_bit_eq)

lemma int16sLE_pcmBytes: "int16sLE (pcmBytes xs) = map toInt16 xs"
  by (induction xs) (simp_all add: pcmBytes_def bytesLE_def cat_bytes)

lemma distinct_b64chars: "distinct b64chars"
  by (simp add: b64chars_def)

lemma length_b64chars: "length b64chars = 64"
  by (simp add: b64chars_def)

lemma pad_not_b64: "CHR ''='' \<notin> set b64chars"
  by (simp add: b64chars_def)

lemma indexOf_nth: "distinct xs \<Longrightarrow> i < length xs \<Longrightarrow> indexOf (xs ! i) xs = Some i"
proof (induction xs arbitrary: i)
  case Nil
  then show ?case by simp
next
  case (Cons x xs)
  then show ?case by (cases i) (auto simp: nth_mem)
qed

lemma indexOf_b64char: "n < 64 \<Longrightarrow> indexOf (b64char n) b64chars = Some n"
  unfolding b64char_def by (rule indexOf_nth) (simp_all add: distinct_b64chars length_b64chars)

lemma b64char_not_pad: "n < 64 \<Longrightarrow> b64char n \<noteq> CHR ''=''"
  unfolding b64char_def using pad_not_b64 nth_mem [of n b64chars]
  by (metis length_b64chars)

lemma unat_byte: "unat (a :: 8 word) < 256"
  using unsigned_less [of a] by simp

lemma b64decode_group:
  assumes "i < 64" "j < 64" "k < 64" "l < 64"
  shows "b64decode (b64char i # b64char j # b64char k # b64char l # rest) =
     (case b64decode rest of None \<Rightarrow> None
      | Some bytes \<Rightarrow>
          Some (of_nat (i * 4 + j div 16) # of_nat (j mod 16 * 16 + k div 4)
                # of_nat (k mod 4 * 64 + l) # bytes))"
  using assms by (simp add: indexOf_b64char b64char_not_pad split: option.splits)

lemma b64decode_pad1:
  assumes "i < 64" "j < 64" "k < 64"
  shows "b64decode [b64char i, b64char j, b64char k, CHR ''=''] =
     Some [of_nat (i * 4 + j div 16), of_nat (j mod 16 * 16 + k div 4)]"
  using assms by (simp add: indexOf_b64char b64char_not_pad)

lemma b64decode_pad2:
  assumes "i < 64" "j < 64"
  shows "b64decode [b64char i, b64char j, CHR ''='', CHR ''=''] = Some [of_nat (i * 4 + j div 16)]"
  using assms by (simp add: indexOf_b64char)

lemma sextets_to_bytes:
  fixes a b c :: "8 word"
  shows "of_nat (unat a div 4 * 4 + (unat a mod 4 * 16 + unat b div 16) div 16) = a"
    and "of_nat ((unat a mod 4 * 16 + unat b div 16) mod 16 * 16 +
           (unat b mod 16 * 4 + unat c div 64) div 4) = b"
    and "of_nat ((unat b mod 16 * 4 + unat c div 64) mod 4 * 64 + unat c mod 64) = c"
    and "of_nat (unat a div 4 * 4 + unat a mod 4 * 16 div 16) = a"
    and "of_nat ((unat a mod 4 * 16 + unat b div 16) mod 16 * 16 + unat b mod 16 * 4 div 4) = b"
proof -
  have a: "unat a < 256" and b: "unat b < 256" and c: "unat c < 256" by (rule unat_byte)+
  have inv: "of_nat (unat w) = w" for w :: "8 word" by simp
  have e1: "unat a div 4 * 4 + (unat a mod 4 * 16 + unat b div 16) div 16 = unat a"
    using b by simp
  show "of_nat (unat a div 4 * 4 + (unat a mod 4 * 16 + unat b div 16) div 16) = a"
    unfolding e1 by (rule inv)
  have e2: "(unat a mod 4 * 16 + unat b div 16) mod 16 * 16 +
      (unat b mod 16 * 4 + unat c div 64) div 4 = unat b"
    using b c by simp
  show "of_nat ((unat a mod 4 * 16 + unat b div 16) mod 16 * 16 +
           (unat b mod 16 * 4 + unat c div 64) div 4) = b"
    unfolding e2 by (rule inv)
  have e3: "(unat b mod 16 * 4 + unat c div 64) mod 4 * 64 + unat c mod 64 = unat c"
    using c by simp
  show "of_nat ((unat b mod 16 * 4 + unat c div 64) mod 4 * 64 + unat c mod 64) = c"
    unfolding e3 by (rule inv)
  have e4: "unat a div 4 * 4 + unat a mod 4 * 16 div 16 = unat a" by simp
  show "of_nat (unat a div 4 * 4 + unat a mod 4 * 16 div 16) = a"
    unfolding e4 by (rule inv)
  have e5: "(unat a mod 4 * 16 + unat b div 16) mod 16 * 16 + unat b mod 16 * 4 div 4 = unat b"
    using b by simp
  show "of_nat ((unat a mod 4 * 16 + unat b div 16) mod 16 * 16 + unat b mod 16 * 4 div 4) = b"
    unfolding e5 by (rule inv)
qed

lemma sextet_bounds:
  fixes a b c :: "8 word"
  shows "unat a div 4 < 64" "unat a mod 4 * 16 < 64" "unat a mod 4 * 16 + unat b div 16 < 64"
    "unat b mod 16 * 4 < 64" "unat b mod 16 * 4 + unat c div 64 < 64" "unat c mod 64 < 64"
  using unat_byte [of a] unat_byte [of b] unat_byte [of c] by simp_all

lemma b64_roundtrip: "b64decode (b64encode bs) = Some bs"
proof (induction bs rule: b64encode.induct)
  case 1
  then show ?case by simp
next
  case (2 a)
  show ?case
    by (simp only: b64encode.simps b64decode_pad2 [OF sextet_bounds(1,2)] sextets_to_bytes)
next
  case (3 a b)
  show ?case
    by (simp only: b64encode.simps b64decode_pad1 [OF sextet_bounds(1,3,4)] sextets_to_bytes)
next
  case (4 a b c rest)
  show ?case
    by (simp only: b64encode.simps append.simps b64decode_group [OF sextet_bounds(1,3,5,6)]
        "4" option.case sextets_to_bytes)
qed

lemma sint_toInt16:
  assumes "- 1 \<le> x" "x \<le> 1"
  shows "sint (toInt16 x) = round (x * 32767)"
proof -
  have "- 32767 \<le> x * 32767" "x * 32767 \<le> 32767" using assms by simp_all
  then have "round (- 32767 :: real) \<le> round (x * 32767)" "round (x * 32767) \<le> round (32767 :: real)"
    by (simp_all only: round_mono)
  then have "- 32767 \<le> round (x * 32767)" "round (x * 32767) \<le> 32767" by simp_all
  then show ?thesis
    unfolding toInt16_def by (simp add: signed_of_int signed_take_bit_int_eq_self)
qed

lemma quantisation_error:
  assumes "- 1 \<le> x" "x \<le> 1"
  shows "\<bar>real_of_int (round (x * 32767)) / 32768 - x\<bar> \<le> 3 / 65536"
proof -
  have lo: "x * 32767 - 1 / 2 \<le> real_of_int (round (x * 32767))"
    by (rule of_int_round_ge)
  have hi: "real_of_int (round (x * 32767)) \<le> x * 32767 + 1 / 2"
    by (rule of_int_round_le)
  have "real_of_int (round (x * 32767)) / 32768 - x \<le> 3 / 65536"
    using hi assms by linarith
  moreover have "- (real_of_int (round (x * 32767)) / 32768 - x) \<le> 3 / 65536"
    using lo assms by linarith
  ultimately show ?thesis by (simp only: abs_le_iff)
qed


lemma deinterleave_mono: "deinterleave (Suc 0) 0 xs = xs"
  by (simp add: deinterleave_def map_nth)

lemma decodeToSamples_encode:
  "decodeToSamples (SampleCodec_encode xs) = Some (map (\<lambda>x. toSample (toInt16 x)) xs)"
  by (simp add: decodeToSamples_def SampleCodec_decode_def SampleCodec_encode_def b64_roundtrip
      toAudioBuffer_def int16sLE_pcmBytes deinterleave_mono comp_def)

text \<open>
  C3, as the codec of section 4.1 has it. For every sample sequence with all values in
  the range from -1 to 1, decoding the encoded form gives a sequence of the same length
  whose elements are within 3/65536, that is 1.5/32768, of the originals: half a step
  from the rounding and up to one step from scaling by 32767 and dividing by 32768.
\<close>

theorem roundtrip_three_halves:
  assumes "list_all (\<lambda>x. - 1 \<le> x \<and> x \<le> 1) xs"
  shows "\<exists>ys. decodeToSamples (SampleCodec_encode xs) = Some ys \<and> length ys = length xs
           \<and> list_all2 (\<lambda>x y. \<bar>y - x\<bar> \<le> 3 / 65536) xs ys"
proof -
  have "\<bar>toSample (toInt16 x) - x\<bar> \<le> 3 / 65536" if "x \<in> set xs" for x
  proof -
    from that assms have r: "- 1 \<le> x" "x \<le> 1" by (auto simp: list_all_iff)
    show ?thesis
      unfolding toSample_def sint_toInt16 [OF r] by (rule quantisation_error [OF r])
  qed
  then have "list_all2 (\<lambda>x y. \<bar>y - x\<bar> \<le> 3 / 65536) xs (map (\<lambda>x. toSample (toInt16 x)) xs)"
    by (simp add: list_all2_conv_all_nth)
  then show ?thesis by (simp add: decodeToSamples_encode)
qed

theorem roundtrip_three_halves_witness:
  "list_all (\<lambda>x. - 1 \<le> x \<and> x \<le> 1) [1 / 2, - 1 :: real]
   \<and> (\<exists>ys. decodeToSamples (SampleCodec_encode [1 / 2, - 1]) = Some ys
         \<and> length ys = length [1 / 2, - 1 :: real]
         \<and> list_all2 (\<lambda>x y. \<bar>y - x\<bar> \<le> 3 / 65536) [1 / 2, - 1] ys)"
proof -
  have h: "list_all (\<lambda>x. - 1 \<le> x \<and> x \<le> 1) [1 / 2, - 1 :: real]" by simp
  show ?thesis by (intro conjI h roundtrip_three_halves [OF h])
qed

text \<open>
  C3 as stated fails: 1/32768 is exceeded. The sample 131069/131072 is scaled to
  32766.25..., stored as 32766 and decoded to 32766/32768, which is 1.25/32768 away.
\<close>

theorem roundtrip_counterexample:
  "- 1 \<le> (131069 / 131072 :: real) \<and> (131069 / 131072 :: real) \<le> 1
   \<and> decodeToSamples (SampleCodec_encode [131069 / 131072]) = Some [16383 / 16384]
   \<and> \<bar>16383 / 16384 - 131069 / 131072\<bar> = (5 / 131072 :: real)
   \<and> (1 / 32768 :: real) < 5 / 131072"
proof -
  have r: "round (131069 / 131072 * 32767 :: real) = 32766"
    by (simp add: round_def)
  have "toSample (toInt16 (131069 / 131072)) = 16383 / 16384"
    unfolding toSample_def toInt16_def r by simp
  then show ?thesis by (simp add: decodeToSamples_encode)
qed

end
